theory Spec2Isabelle
  imports Main "HOL-Library.Multiset"
begin

section \<open>JavaScript strings and character classes\<close>

text \<open>
  A JavaScript string is modelled as the list of its code units, each a \<^typ>\<open>char\<close>;
  \<open>length\<close> is the \<open>.length\<close> of the source. The type \<^typ>\<open>char\<close> has 256 values, so the
  model covers strings whose code units lie in the range 0..255; the character classes
  below are the classes of the ECMAScript regular expressions restricted to that range.
\<close>

definition isSpace :: "char \<Rightarrow> bool" where
  \<comment> \<open>The class \<open>\s\<close>, also the characters removed by \<open>trim()\<close> and skipped by \<open>parseInt\<close>:
      TAB, LF, VT, FF, CR, SPACE, NBSP.\<close>
  "isSpace c = (c \<in> set [CHR 0x09, CHR 0x0A, CHR 0x0B, CHR 0x0C, CHR 0x0D, CHR 0x20, CHR 0xA0])"

definition isDigit :: "char \<Rightarrow> bool" where
  \<comment> \<open>The class \<open>\d\<close>.\<close>
  "isDigit c = (c \<in> set ''0123456789'')"

definition upperAscii :: "char \<Rightarrow> char" where
  \<comment> \<open>Canonicalisation under the \<open>i\<close> flag, as far as the patterns of the source can see
      it: a letter a..z becomes A..Z. Every pattern character of the source is below 128, and
      no code unit above 127 is canonicalised to one below 128, so the other code units are
      kept.\<close>
  "upperAscii c =
     (case map_of (zip ''abcdefghijklmnopqrstuvwxyz'' ''ABCDEFGHIJKLMNOPQRSTUVWXYZ'') c of
        Some u \<Rightarrow> u
      | None \<Rightarrow> c)"

definition ciEq :: "char \<Rightarrow> char \<Rightarrow> bool" where
  "ciEq a b = (upperAscii a = upperAscii b)"

fun litPrefix :: "(char \<Rightarrow> char \<Rightarrow> bool) \<Rightarrow> string \<Rightarrow> string \<Rightarrow> bool" where
  \<comment> \<open>The literal pattern \<open>p\<close> matches at the start of the subject, characters compared with \<open>eq\<close>:
      equality for a case-sensitive expression, \<^const>\<open>ciEq\<close> under the \<open>i\<close> flag.\<close>
  "litPrefix eq [] s = True"
| "litPrefix eq (p # ps) [] = False"
| "litPrefix eq (p # ps) (c # cs) = (eq p c \<and> litPrefix eq ps cs)"

fun splitAtFirst :: "(char \<Rightarrow> char \<Rightarrow> bool) \<Rightarrow> string \<Rightarrow> string \<Rightarrow> (string \<times> string) option" where
  \<comment> \<open>The lazy \<open>[\s\S]*?\<close> followed by a literal: the text before the first occurrence of the
      literal, and the text after that occurrence.\<close>
  "splitAtFirst eq pat [] = (if pat = [] then Some ([], []) else None)"
| "splitAtFirst eq pat (c # cs) =
     (if litPrefix eq pat (c # cs) then Some ([], drop (length pat) (c # cs))
      else (case splitAtFirst eq pat cs of
              Some (before, after) \<Rightarrow> Some (c # before, after)
            | None \<Rightarrow> None))"

fun firstMatch :: "(string \<Rightarrow> 'a option) \<Rightarrow> string \<Rightarrow> 'a option" where
  \<comment> \<open>An unanchored expression tries every start position from the left and takes
      the first that matches; \<open>m\<close> is the expression anchored at the start of its argument.\<close>
  "firstMatch m [] = m []"
| "firstMatch m (c # cs) = (case m (c # cs) of Some r \<Rightarrow> Some r | None \<Rightarrow> firstMatch m cs)"

fun occursIn :: "(char \<Rightarrow> char \<Rightarrow> bool) \<Rightarrow> string \<Rightarrow> string \<Rightarrow> bool" where
  \<comment> \<open>The literal pattern occurs somewhere in the subject.\<close>
  "occursIn eq pat [] = litPrefix eq pat []"
| "occursIn eq pat (c # cs) = (litPrefix eq pat (c # cs) \<or> occursIn eq pat cs)"

definition trim :: "string \<Rightarrow> string" where
  "trim s = rev (dropWhile isSpace (rev (dropWhile isSpace s)))"

definition replaceChar :: "char \<Rightarrow> string \<Rightarrow> string \<Rightarrow> string" where
  \<comment> \<open>\<open>s.replace(/c/g, rep)\<close> for a one-character pattern.\<close>
  "replaceChar c rep s = concat (map (\<lambda>x. if x = c then rep else [x]) s)"

fun replaceAllLit :: "string \<Rightarrow> string \<Rightarrow> string \<Rightarrow> string" where
  \<comment> \<open>\<open>s.replace(/pat/g, rep)\<close> for a non-empty literal pattern: matches are taken from
      the left and do not overlap.\<close>
  "replaceAllLit pat rep [] = []"
| "replaceAllLit pat rep (c # cs) =
     (if pat \<noteq> [] \<and> litPrefix (=) pat (c # cs)
      then rep @ replaceAllLit pat rep (drop (length pat - 1) cs)
      else c # replaceAllLit pat rep cs)"

definition tagRest :: "string \<Rightarrow> string option" where
  \<comment> \<open>After a \<open><\<close>: the rest of \<open><[^>]+>\<close>. The greedy class takes every character up to the next
      \<open>>\<close>; the match needs at least one such character and the \<open>>\<close> itself. The result is the
      text after the match.\<close>
  "tagRest cs =
     (let run = takeWhile (\<lambda>c. c \<noteq> CHR ''>'') cs;
          rest = dropWhile (\<lambda>c. c \<noteq> CHR ''>'') cs
      in if run \<noteq> [] \<and> rest \<noteq> [] then Some (tl rest) else None)"

lemma tagRest_shorter: "tagRest cs = Some rest \<Longrightarrow> length rest < Suc (length cs)"
proof -
  assume a: "tagRest cs = Some rest"
  have "length (dropWhile (\<lambda>c. c \<noteq> CHR ''>'') cs) \<le> length cs"
    by (rule length_dropWhile_le)
  with a show ?thesis
    by (auto simp: tagRest_def Let_def split: if_splits)
qed

function removeTags :: "string \<Rightarrow> string" where
  \<comment> \<open>\<open>text.replace(/<[^>]+>/g, '')\<close>\<close>
  "removeTags [] = []"
| "removeTags (c # cs) =
     (if c = CHR ''<'' then
        (case tagRest cs of
           Some rest \<Rightarrow> removeTags rest
         | None \<Rightarrow> c # removeTags cs)
      else c # removeTags cs)"
  by pat_completeness auto
termination
  by (relation "measure length") (auto dest: tagRest_shorter)

section \<open>XML extraction\<close>

definition tagMatchHere :: "string \<Rightarrow> string \<Rightarrow> string option" where
  \<comment> \<open>The expression \<open><TAG[^>]*>([\s\S]*?)<\/TAG>\<close> with the flag \<open>i\<close>, anchored at the start
      of \<open>s\<close>; the result is group 1. After the tag name the greedy class runs to the next
      \<open>>\<close>, which must exist; the lazy group ends at the first closing tag after it. The tag
      names of the source hold no character that is special in an expression.\<close>
  "tagMatchHere tag s =
     (if litPrefix ciEq (CHR ''<'' # tag) s then
        (case dropWhile (\<lambda>c. c \<noteq> CHR ''>'') (drop (Suc (length tag)) s) of
           [] \<Rightarrow> None
         | gt # body \<Rightarrow>
             (case splitAtFirst ciEq (''</'' @ tag @ ''>'') body of
                Some (content, after) \<Rightarrow> Some content
              | None \<Rightarrow> None))
      else None)"

definition getTagContent :: "string \<Rightarrow> string \<Rightarrow> string" where
  "getTagContent xml tag =
     (case firstMatch (tagMatchHere tag) xml of
        Some group1 \<Rightarrow> trim group1
      | None \<Rightarrow> [])"

definition tagClosedOff :: "string \<Rightarrow> string \<Rightarrow> bool" where
  \<comment> \<open>No match of the tag expression can start at \<open>s\<close> or later: after the place of the tag
      name there is no \<open>>\<close>, or there is no closing tag after the first \<open>>\<close>.\<close>
  "tagClosedOff tag s =
     (let r = dropWhile (\<lambda>c. c \<noteq> CHR ''>'') (drop (Suc (length tag)) s)
      in r = [] \<or> \<not> occursIn ciEq (''</'' @ tag @ ''>'') (tl r))"

definition delimitedHere ::
  "(char \<Rightarrow> char \<Rightarrow> bool) \<Rightarrow> string \<Rightarrow> string \<Rightarrow> string \<Rightarrow> (string \<times> string) option" where
  \<comment> \<open>An expression \<open>OPEN([\s\S]*?)CLOSE\<close> of two literals, anchored at the start of \<open>s\<close>:
      group 1 and the text after the match.\<close>
  "delimitedHere eq opn cls s =
     (if litPrefix eq opn s then splitAtFirst eq cls (drop (length opn) s) else None)"

definition cdataMatchHere :: "string \<Rightarrow> string option" where
  \<comment> \<open>\<open><!\[CDATA\[([\s\S]*?)\]\]>\<close> anchored at the start of \<open>s\<close>; the result is group 1.\<close>
  "cdataMatchHere s = map_option fst (delimitedHere (=) ''<![CDATA['' '']]>'' s)"

definition getCDATA :: "string \<Rightarrow> string" where
  "getCDATA text =
     (case firstMatch cdataMatchHere text of
        Some group1 \<Rightarrow> trim group1
      | None \<Rightarrow> trim (removeTags text))"

definition isQuote :: "char \<Rightarrow> bool" where
  \<comment> \<open>The class \<open>["']\<close>.\<close>
  "isQuote c = (c = CHR 0x22 \<or> c = CHR 0x27)"

definition attrValueHere :: "string \<Rightarrow> string \<Rightarrow> string option" where
  \<comment> \<open>\<open>\sATTR=["']([^"']*)["']\<close> with the flag \<open>i\<close>, anchored at the start of \<open>s\<close>; the result
      is group 1: the characters up to the next quote of either kind, which must exist.\<close>
  "attrValueHere attr s =
     (case s of
        [] \<Rightarrow> None
      | w # r \<Rightarrow>
          if isSpace w \<and> litPrefix ciEq (attr @ ''='') r then
            (case drop (Suc (length attr)) r of
               [] \<Rightarrow> None
             | q # v \<Rightarrow>
                 if isQuote q \<and> dropWhile (\<lambda>c. \<not> isQuote c) v \<noteq> []
                 then Some (takeWhile (\<lambda>c. \<not> isQuote c) v)
                 else None)
          else None)"

fun attrBacktrack :: "string \<Rightarrow> string \<Rightarrow> nat \<Rightarrow> string option" where
  \<comment> \<open>The greedy \<open>[^>]*\<close> before the attribute: it first takes \<open>k\<close> characters and gives them
      back one by one until the rest of the expression matches.\<close>
  "attrBacktrack attr s 0 = attrValueHere attr s"
| "attrBacktrack attr s (Suc k) =
     (case attrValueHere attr (drop (Suc k) s) of
        Some v \<Rightarrow> Some v
      | None \<Rightarrow> attrBacktrack attr s k)"

definition attrMatchHere :: "string \<Rightarrow> string \<Rightarrow> string \<Rightarrow> string option" where
  \<comment> \<open>\<open><TAG[^>]*\sATTR=["']([^"']*)["']\<close> with the flag \<open>i\<close>, anchored at the start of \<open>s\<close>.\<close>
  "attrMatchHere tag attr s =
     (if litPrefix ciEq (CHR ''<'' # tag) s then
        (let r = drop (Suc (length tag)) s
         in attrBacktrack attr r (length (takeWhile (\<lambda>c. c \<noteq> CHR ''>'') r)))
      else None)"

definition getAttr :: "string \<Rightarrow> string \<Rightarrow> string \<Rightarrow> string" where
  "getAttr xml tag attr =
     (case firstMatch (attrMatchHere tag attr) xml of
        Some group1 \<Rightarrow> group1
      | None \<Rightarrow> [])"

definition itemMatchHere :: "string \<Rightarrow> (string \<times> string) option" where
  \<comment> \<open>\<open><item>([\s\S]*?)<\/item>\<close> with the flag \<open>i\<close>, anchored at the start of \<open>s\<close>: group 1 and
      the text after the match, where the next search starts (\<open>lastIndex\<close>).\<close>
  "itemMatchHere s = delimitedHere ciEq ''<item>'' ''</item>'' s"

lemma splitAtFirst_length:
  "splitAtFirst eq pat s = Some (before, after) \<Longrightarrow> length before + length after \<le> length s"
proof (induction s arbitrary: before after)
  case Nil
  then show ?case by (simp split: if_splits)
next
  case (Cons c cs)
  show ?case
  proof (cases "litPrefix eq pat (c # cs)")
    case True
    with Cons.prems show ?thesis by auto
  next
    case False
    with Cons.prems obtain b where "splitAtFirst eq pat cs = Some (b, after)" "before = c # b"
      by (auto split: option.splits)
    with Cons.IH [of b after] show ?thesis by simp
  qed
qed

lemma litPrefix_length: "litPrefix eq p s \<Longrightarrow> length p \<le> length s"
  by (induction eq p s rule: litPrefix.induct) auto

lemma delimitedHere_shorter:
  assumes "opn \<noteq> []" and m: "delimitedHere eq opn cls s = Some (content, after)"
  shows "length after < length s"
proof -
  from m have p: "litPrefix eq opn s"
    and sp: "splitAtFirst eq cls (drop (length opn) s) = Some (content, after)"
    by (auto simp: delimitedHere_def split: if_splits)
  from splitAtFirst_length [OF sp] have "length after \<le> length s - length opn" by simp
  moreover from litPrefix_length [OF p] assms(1) have "0 < length opn" "length opn \<le> length s"
    by simp_all
  ultimately show ?thesis by linarith
qed

lemma firstMatch_item_shorter:
  "firstMatch itemMatchHere xml = Some (content, after) \<Longrightarrow> length after < length xml"
proof (induction xml)
  case Nil
  then show ?case by (simp add: itemMatchHere_def delimitedHere_def)
next
  case (Cons c cs)
  show ?case
  proof (cases "itemMatchHere (c # cs)")
    case None
    with Cons show ?thesis by auto
  next
    case (Some r)
    with Cons.prems have "delimitedHere ciEq ''<item>'' ''</item>'' (c # cs) = Some (content, after)"
      by (simp add: itemMatchHere_def)
    then show ?thesis by (rule delimitedHere_shorter [rotated]) simp
  qed
qed

function getAllItems :: "string \<Rightarrow> string list" where
  \<comment> \<open>The loop \<open>while ((match = regex.exec(xml)) !== null) items.push(match[1])\<close> over the
      global expression: each search starts where the last match ended.\<close>
  "getAllItems xml =
     (case firstMatch itemMatchHere xml of
        None \<Rightarrow> []
      | Some (content, after) \<Rightarrow> content # getAllItems after)"
  by pat_completeness auto
termination
  by (relation "measure length") (auto dest: firstMatch_item_shorter)

declare getAllItems.simps [simp del]

section \<open>Numbers\<close>

text \<open>
  A JavaScript number that holds an integer is modelled as an \<^typ>\<open>int\<close>, and \<open>NaN\<close> as
  \<^const>\<open>None\<close>. The model is exact while the values stay below \<open>2^53\<close> in magnitude, where
  every integer is a number of the source.
\<close>

definition digitVal :: "char \<Rightarrow> nat" where
  \<comment> \<open>The value of a digit in a radix up to 36; 36 for a character that is no digit.\<close>
  "digitVal c =
     length (takeWhile (\<lambda>d. d \<noteq> upperAscii c) ''0123456789ABCDEFGHIJKLMNOPQRSTUVWXYZ'')"

definition digitsValue :: "nat \<Rightarrow> string \<Rightarrow> nat" where
  "digitsValue r ds = foldl (\<lambda>acc d. acc * r + digitVal d) 0 ds"

definition stripSign :: "string \<Rightarrow> bool \<times> string" where
  "stripSign s =
     (case s of
        [] \<Rightarrow> (False, [])
      | c # cs \<Rightarrow>
          if c = CHR ''-'' then (True, cs)
          else if c = CHR ''+'' then (False, cs)
          else (False, s))"

definition parseInt :: "string \<Rightarrow> nat option \<Rightarrow> int option" where
  \<comment> \<open>The global \<open>parseInt(string, radix)\<close>; the radix \<^const>\<open>None\<close> is a call without one.
      Leading white space is skipped, a sign is read, \<open>0x\<close> selects radix 16 when no other
      radix was given, and the longest prefix of digits is the value: what follows the
      digits is ignored, and only a string with no digit there gives \<open>NaN\<close>.\<close>
  "parseInt inputString radix =
     (let (neg, s) = stripSign (dropWhile isSpace inputString);
          r0 = (case radix of None \<Rightarrow> 0 | Some r \<Rightarrow> r)
      in if r0 \<noteq> 0 \<and> (r0 < 2 \<or> 36 < r0) then None
         else
           let hexPrefix = ((r0 = 0 \<or> r0 = 16) \<and> litPrefix ciEq ''0x'' s);
               r = (if hexPrefix then 16 else if r0 = 0 then 10 else r0);
               z = takeWhile (\<lambda>c. digitVal c < r) (if hexPrefix then drop 2 s else s)
           in if z = [] then None
              else Some ((if neg then - 1 else 1) * int (digitsValue r z)))"

fun showNat :: "nat \<Rightarrow> string" where
  "showNat n =
     (if n < 10 then [''0123456789'' ! n]
      else showNat (n div 10) @ [''0123456789'' ! (n mod 10)])"

declare showNat.simps [simp del]

definition showInt :: "int \<Rightarrow> string" where
  \<comment> \<open>An integer number interpolated into a template literal.\<close>
  "showInt i = (if i < 0 then CHR ''-'' # showNat (nat (- i)) else showNat (nat i))"

definition jsRem :: "int \<Rightarrow> int \<Rightarrow> int" where
  \<comment> \<open>The operator \<open>%\<close>: the remainder has the sign of the dividend.\<close>
  "jsRem a b = (if a < 0 then - ((- a) mod \<bar>b\<bar>) else a mod \<bar>b\<bar>)"

section \<open>Episode normalisation: duration\<close>

definition formatDuration :: "string \<Rightarrow> string" where
  "formatDuration seconds =
     (case parseInt seconds (Some 10) of
        None \<Rightarrow> seconds
      | Some s \<Rightarrow>
          let h = s div 3600;
              m = jsRem s 3600 div 60;
              sec = jsRem s 60
          in if h > 0 then showInt h @ ''h '' @ showInt m @ ''m''
             else showInt m @ '' min'')"

section \<open>Episode normalisation\<close>

text \<open>
  The \<open>Date\<close> object of the runtime is not code of the repository. A date is modelled by its
  time value (\<^const>\<open>None\<close> for an invalid date, whose time value is \<open>NaN\<close>), and the runtime
  functions that read one are parameters of the model: the parser of the constructor and
  the local-time getters that \<open>formatDate\<close> calls.
\<close>

record runtime =
  dateParse :: "string \<Rightarrow> int option"
  getMonth :: "int \<Rightarrow> nat"
  getDate :: "int \<Rightarrow> nat"
  getFullYear :: "int \<Rightarrow> int"

record episode =
  title :: string
  fullTitle :: string
  description :: string
  summary :: string
  pubDate :: string
  date :: "int option"
  duration :: string
  durationRaw :: string
  episode :: string
  season :: string
  explicit :: bool
  audioUrl :: string
  episodeImage :: string
  buzzsproutId :: string
  guid :: string

record podcastMeta =
  \<comment> \<open>The channel-level fields; the field names of the source carry the prefix \<open>podcast\<close> here,
      since \<open>title\<close> and \<open>description\<close> are fields of an episode as well.\<close>
  podcastTitle :: string
  podcastDescription :: string
  podcastAuthor :: string
  podcastImage :: string
  podcastLink :: string

definition episodesIdHere :: "string \<Rightarrow> string option" where
  \<comment> \<open>\<open>episodes\/(\d+)\<close> anchored at the start of \<open>s\<close>; the result is group 1.\<close>
  "episodesIdHere s =
     (if litPrefix (=) ''episodes/'' s \<and> takeWhile isDigit (drop (length ''episodes/'') s) \<noteq> []
      then Some (takeWhile isDigit (drop (length ''episodes/'') s))
      else None)"

definition leadingNumber :: "string \<Rightarrow> string option" where
  \<comment> \<open>\<open>t.match(/^(\d+)\./)\<close>: group 1, or \<^const>\<open>None\<close> for \<open>null\<close>.\<close>
  "leadingNumber t =
     (let ds = takeWhile isDigit t
      in if ds \<noteq> [] \<and> litPrefix (=) ''.'' (drop (length ds) t) then Some ds else None)"

definition stripLeadingNumber :: "string \<Rightarrow> string" where
  \<comment> \<open>\<open>t.replace(/^\d+\.\s*/, '')\<close>\<close>
  "stripLeadingNumber t =
     (case leadingNumber t of
        Some ds \<Rightarrow> dropWhile isSpace (drop (Suc (length ds)) t)
      | None \<Rightarrow> t)"

definition parseEpisode :: "runtime \<Rightarrow> string \<Rightarrow> episode" where
  "parseEpisode rt itemXml =
     (let rawTitle = getCDATA (getTagContent itemXml ''title'');
          rawDescription = getCDATA (getTagContent itemXml ''description'');
          rawPubDate = getTagContent itemXml ''pubDate'';
          rawDuration = getTagContent itemXml ''itunes:duration'';
          rawEpisode = getTagContent itemXml ''itunes:episode'';
          rawSeason = getTagContent itemXml ''itunes:season'';
          rawExplicit = getTagContent itemXml ''itunes:explicit'';
          rawSummary = getCDATA (if getTagContent itemXml ''itunes:summary'' \<noteq> []
                                 then getTagContent itemXml ''itunes:summary''
                                 else getTagContent itemXml ''description'');
          rawAudioUrl = getAttr itemXml ''enclosure'' ''url'';
          rawImage = getAttr itemXml ''itunes:image'' ''href'';
          rawGuid = getTagContent itemXml ''guid'';
          idMatch = firstMatch episodesIdHere rawAudioUrl;
          episodeNum = (if rawEpisode = [] then
                          (case leadingNumber rawTitle of
                             Some group1 \<Rightarrow> group1
                           | None \<Rightarrow> rawEpisode)
                        else rawEpisode)
      in \<lparr> title = stripLeadingNumber rawTitle,
           fullTitle = rawTitle,
           description = rawDescription,
           summary = rawSummary,
           pubDate = rawPubDate,
           date = dateParse rt rawPubDate,
           duration = formatDuration rawDuration,
           durationRaw = rawDuration,
           episode = episodeNum,
           season = (if rawSeason \<noteq> [] then rawSeason else ''1''),
           explicit = (rawExplicit = ''true'' \<or> rawExplicit = ''yes''),
           audioUrl = rawAudioUrl,
           episodeImage = rawImage,
           buzzsproutId = (case idMatch of Some group1 \<Rightarrow> group1 | None \<Rightarrow> []),
           guid = rawGuid \<rparr>)"

section \<open>Episode normalisation: run-time checks\<close>

text \<open>
  The functions above give the value of each call. The evaluation below keeps the checks
  that the language makes while it computes that value: \<open>match\<close> returns \<open>null\<close> or an array
  whose elements can be \<open>undefined\<close>, and calling a method of \<open>undefined\<close> throws a
  \<open>TypeError\<close>. The source reads a member of the result of \<open>match\<close> only after it has
  tested the result, which is the case distinction on it here. \<^const>\<open>None\<close> is \<open>null\<close> for
  the result of \<open>match\<close> and \<open>undefined\<close> for an element of the array.
\<close>

datatype jsError = TypeError

type_synonym matchArray = "string option list"

definition matchResult :: "string option \<Rightarrow> matchArray option" where
  \<comment> \<open>The value of \<open>s.match(re)\<close> for an expression without the flag \<open>g\<close>, from group 1 of the
      leftmost match: \<open>null\<close> when nothing matches, else the array of the groups (element 0,
      the matched text, is left out: the source reads element 1 only). Each expression of
      \<open>parseEpisode\<close> and of its helpers has one group, outside every alternative and every
      optional part, so that a match defines it.\<close>
  "matchResult group1 = map_option (\<lambda>g. [Some g]) group1"

definition matchAt :: "matchArray \<Rightarrow> nat \<Rightarrow> string option" where
  \<comment> \<open>\<open>m[k]\<close> for \<open>k\<close> from 1 on: \<open>undefined\<close> outside the array.\<close>
  "matchAt m k = (if 0 < k \<and> k \<le> length m then m ! (k - 1) else None)"

definition callMethod :: "string option \<Rightarrow> (string \<Rightarrow> 'a) \<Rightarrow> jsError + 'a" where
  \<comment> \<open>\<open>v.method(...)\<close> for a method of strings: a \<open>TypeError\<close> when \<open>v\<close> is \<open>undefined\<close>.\<close>
  "callMethod v method = (case v of None \<Rightarrow> Inl TypeError | Some s \<Rightarrow> Inr (method s))"

definition stringField :: "string option \<Rightarrow> jsError + string" where
  \<comment> \<open>A field that the episode record holds as a string. The language would store
      \<open>undefined\<close> there without an error; the evaluation reports it, since the object
      returned would not be an episode record.\<close>
  "stringField v = (case v of None \<Rightarrow> Inl TypeError | Some s \<Rightarrow> Inr s)"

definition andThen :: "jsError + 'a \<Rightarrow> ('a \<Rightarrow> jsError + 'b) \<Rightarrow> jsError + 'b" where
  \<comment> \<open>Sequencing: an error thrown by the first step ends the evaluation.\<close>
  "andThen r f = (case r of Inl e \<Rightarrow> Inl e | Inr v \<Rightarrow> f v)"

definition getTagContentChecked :: "string \<Rightarrow> string \<Rightarrow> jsError + string" where
  \<comment> \<open>\<open>match ? match[1].trim() : ''\<close>\<close>
  "getTagContentChecked xml tag =
     (case matchResult (firstMatch (tagMatchHere tag) xml) of
        Some m \<Rightarrow> callMethod (matchAt m 1) trim
      | None \<Rightarrow> Inr [])"

definition getCDATAChecked :: "string \<Rightarrow> jsError + string" where
  \<comment> \<open>\<open>match ? match[1].trim() : text.replace(/<[^>]+>/g, '').trim()\<close>\<close>
  "getCDATAChecked text =
     (case matchResult (firstMatch cdataMatchHere text) of
        Some m \<Rightarrow> callMethod (matchAt m 1) trim
      | None \<Rightarrow> Inr (trim (removeTags text)))"

definition getAttrChecked :: "string \<Rightarrow> string \<Rightarrow> string \<Rightarrow> string option" where
  \<comment> \<open>\<open>match ? match[1] : ''\<close>: no method is called, the element is returned as it is.\<close>
  "getAttrChecked xml tag attr =
     (case matchResult (firstMatch (attrMatchHere tag attr) xml) of
        Some m \<Rightarrow> matchAt m 1
      | None \<Rightarrow> Some [])"

definition parseEpisodeChecked :: "runtime \<Rightarrow> string \<Rightarrow> jsError + episode" where
  \<comment> \<open>The statements of \<open>parseEpisode\<close> in their order. \<open>new Date\<close>, \<open>formatDuration\<close>, the
      comparisons and \<open>||\<close> throw for no value, and \<open>new RegExp\<close> does not throw for the tag
      names of the source, which hold no character that is special in an expression.\<close>
  "parseEpisodeChecked rt itemXml =
     andThen (andThen (getTagContentChecked itemXml ''title'') getCDATAChecked) (\<lambda>rawTitle.
     andThen (andThen (getTagContentChecked itemXml ''description'') getCDATAChecked) (\<lambda>rawDescription.
     andThen (getTagContentChecked itemXml ''pubDate'') (\<lambda>rawPubDate.
     andThen (getTagContentChecked itemXml ''itunes:duration'') (\<lambda>rawDuration.
     andThen (getTagContentChecked itemXml ''itunes:episode'') (\<lambda>rawEpisode.
     andThen (getTagContentChecked itemXml ''itunes:season'') (\<lambda>rawSeason.
     andThen (getTagContentChecked itemXml ''itunes:explicit'') (\<lambda>rawExplicit.
     andThen (andThen (andThen (getTagContentChecked itemXml ''itunes:summary'')
                         (\<lambda>s. if s \<noteq> [] then Inr s
                              else getTagContentChecked itemXml ''description''))
                getCDATAChecked) (\<lambda>rawSummary.
     let rawAudioUrl = getAttrChecked itemXml ''enclosure'' ''url'';
         rawImage = getAttrChecked itemXml ''itunes:image'' ''href''
     in
     andThen (getTagContentChecked itemXml ''guid'') (\<lambda>rawGuid.
     andThen (callMethod rawAudioUrl (\<lambda>u. matchResult (firstMatch episodesIdHere u))) (\<lambda>idMatch.
     let rawId = (case idMatch of Some m \<Rightarrow> matchAt m 1 | None \<Rightarrow> Some []);
         episodeNum = (if rawEpisode = [] then
                         (case matchResult (leadingNumber rawTitle) of
                            Some m \<Rightarrow> matchAt m 1
                          | None \<Rightarrow> Some rawEpisode)
                       else Some rawEpisode)
     in
     andThen (stringField episodeNum) (\<lambda>episodeField.
     andThen (stringField rawAudioUrl) (\<lambda>audioUrlField.
     andThen (stringField rawImage) (\<lambda>imageField.
     andThen (stringField rawId) (\<lambda>idField.
       Inr \<lparr> title = stripLeadingNumber rawTitle,
             fullTitle = rawTitle,
             description = rawDescription,
             summary = rawSummary,
             pubDate = rawPubDate,
             date = dateParse rt rawPubDate,
             duration = formatDuration rawDuration,
             durationRaw = rawDuration,
             episode = episodeField,
             season = (if rawSeason \<noteq> [] then rawSeason else ''1''),
             explicit = (rawExplicit = ''true'' \<or> rawExplicit = ''yes''),
             audioUrl = audioUrlField,
             episodeImage = imageField,
             buzzsproutId = idField,
             guid = rawGuid \<rparr>))))))))))))))"

definition lacksElement :: "string \<Rightarrow> string \<Rightarrow> bool" where
  \<comment> \<open>The fragment holds no text that opens the tag (\<open><TAG\<close>) or no text that closes it
      (\<open></TAG>\<close>), in any letter case.\<close>
  "lacksElement tag xml =
     (\<not> occursIn ciEq (CHR ''<'' # tag) xml \<or> \<not> occursIn ciEq (''</'' @ tag @ ''>'') xml)"

definition lacksAttribute :: "string \<Rightarrow> string \<Rightarrow> string \<Rightarrow> bool" where
  \<comment> \<open>The fragment holds no text that opens the tag (\<open><TAG\<close>) or no text that sets the
      attribute (\<open>ATTR=\<close>), in any letter case.\<close>
  "lacksAttribute tag attr xml =
     (\<not> occursIn ciEq (CHR ''<'' # tag) xml \<or> \<not> occursIn ciEq (attr @ ''='') xml)"

function outsideCDATA :: "string \<Rightarrow> string" where
  \<comment> \<open>The markup of a fragment: its text without the CDATA sections, whose content XML
      reads as character data and not as tags; a section that is opened and never closed
      is no section. The source has no counterpart: the function states where a tag of
      the item can stand.\<close>
  "outsideCDATA [] = []"
| "outsideCDATA (c # cs) =
     (case delimitedHere (=) ''<![CDATA['' '']]>'' (c # cs) of
        Some (content, after) \<Rightarrow> outsideCDATA after
      | None \<Rightarrow> c # outsideCDATA cs)"
  by pat_completeness auto
termination
proof (relation "measure length")
  show "wf (measure length)" by simp
next
  fix c cs x2 content after
  assume "delimitedHere (=) ''<![CDATA['' '']]>'' (c # cs) = Some x2" "(content, after) = x2"
  then have "delimitedHere (=) ''<![CDATA['' '']]>'' (c # cs) = Some (content, after)" by simp
  then have "length after < length (c # cs)"
    by (rule delimitedHere_shorter [rotated]) simp
  then show "(after, c # cs) \<in> measure length" by simp
next
  fix c :: char and cs :: string
  show "(cs, c # cs) \<in> measure length" by simp
qed

section \<open>Sorting the episode collection\<close>

definition episodeNumber :: "episode \<Rightarrow> int" where
  \<comment> \<open>\<open>parseInt(a.episode) || 0\<close>: \<open>NaN\<close> and 0 are both falsy.\<close>
  "episodeNumber a = (case parseInt (episode a) None of Some n \<Rightarrow> n | None \<Rightarrow> 0)"

definition compareEpisodes :: "episode \<Rightarrow> episode \<Rightarrow> int option" where
  \<comment> \<open>The comparator of \<open>build\<close>; \<^const>\<open>None\<close> is \<open>NaN\<close>, the difference of two dates one
      of which is invalid.\<close>
  "compareEpisodes a b =
     (let numA = episodeNumber a;
          numB = episodeNumber b
      in if numA \<noteq> numB then Some (numB - numA)
         else (case (date b, date a) of
                 (Some tb, Some ta) \<Rightarrow> Some (tb - ta)
               | _ \<Rightarrow> None))"

definition compareValue :: "int option \<Rightarrow> int" where
  \<comment> \<open>\<open>Array.prototype.sort\<close> reads a comparator result \<open>NaN\<close> as 0.\<close>
  "compareValue v = (case v of Some n \<Rightarrow> n | None \<Rightarrow> 0)"

fun insertSorted :: "('a \<Rightarrow> 'a \<Rightarrow> int option) \<Rightarrow> 'a \<Rightarrow> 'a list \<Rightarrow> 'a list" where
  "insertSorted cmp x [] = [x]"
| "insertSorted cmp x (y # ys) =
     (if compareValue (cmp x y) \<le> 0 then x # y # ys else y # insertSorted cmp x ys)"

definition arraySort :: "('a \<Rightarrow> 'a \<Rightarrow> int option) \<Rightarrow> 'a list \<Rightarrow> 'a list" where
  \<comment> \<open>\<open>Array.prototype.sort(cmp)\<close>, part of the runtime: a stable sort by the comparator,
      modelled as the stable insertion sort. An element is placed before the first element
      that it does not compare greater than, so elements that compare equal keep their order.\<close>
  "arraySort cmp xs = foldr (insertSorted cmp) xs []"

definition buildEpisodes :: "runtime \<Rightarrow> string \<Rightarrow> episode list" where
  \<comment> \<open>\<open>getAllItems(rssContent).map(parseEpisode).sort(...)\<close> of \<open>build\<close>.\<close>
  "buildEpisodes rt rssContent =
     arraySort compareEpisodes (map (parseEpisode rt) (getAllItems rssContent))"



definition exampleRuntime :: runtime where
  \<comment> \<open>A runtime for the examples: a publish date is its number of seconds when it is a plain
      number, and invalid otherwise.\<close>
  "exampleRuntime =
     \<lparr> dateParse = (\<lambda>s. if s \<noteq> [] \<and> list_all isDigit s then parseInt s (Some 10) else None),
       getMonth = (\<lambda>t. 0), getDate = (\<lambda>t. 1), getFullYear = (\<lambda>t. 1970) \<rparr>"

definition exampleEpisode :: "string \<Rightarrow> string \<Rightarrow> int option \<Rightarrow> episode" where
  \<comment> \<open>An episode for the examples, with the given number, title and date.\<close>
  "exampleEpisode num ttl d =
     \<lparr> title = ttl, fullTitle = ttl, description = [], summary = [], pubDate = [], date = d,
       duration = [], durationRaw = [], episode = num, season = ''1'', explicit = False,
       audioUrl = [], episodeImage = [], buzzsproutId = [], guid = [] \<rparr>"



section \<open>HTML templates: text utilities\<close>

definition escapeHtml :: "string \<Rightarrow> string" where
  \<open>escapeHtml text =
     replaceChar (CHR ''"'') ''&quot;''
       (replaceChar (CHR ''>'') ''&gt;''
         (replaceChar (CHR ''<'') ''&lt;''
           (replaceChar (CHR ''&'') ''&amp;'' text)))\<close>

definition stripHtml :: "string \<Rightarrow> string" where
  \<open>stripHtml text =
     replaceAllLit ''&quot;'' ''"''
       (replaceAllLit ''&#39;'' [CHR 0x27]
         (replaceAllLit ''&gt;'' ''>''
           (replaceAllLit ''&lt;'' ''<''
             (replaceAllLit ''&amp;'' ''&''
               (replaceAllLit ''&nbsp;'' '' ''
                 (removeTags text))))))\<close>

definition cleanDescription :: "string \<Rightarrow> string" where
  \<comment> \<open>\<open>text.replace(/^Send us a text\s*/i, '')\<close>\<close>
  "cleanDescription text =
     (if litPrefix ciEq ''Send us a text'' text
      then dropWhile isSpace (drop (length ''Send us a text'') text)
      else text)"

fun cutLastWord :: "string \<Rightarrow> string" where
  \<comment> \<open>\<open>s.replace(/\s+\S*$/, '')\<close>: the match starts at the first white space character from
      which white space and then only other characters run to the end of the string.\<close>
  "cutLastWord [] = []"
| "cutLastWord (c # cs) =
     (if isSpace c \<and> list_all (\<lambda>x. \<not> isSpace x) (dropWhile isSpace cs) then []
      else c # cutLastWord cs)"

definition truncate :: "string \<Rightarrow> nat \<Rightarrow> string" where
  \<comment> \<open>\<open>truncate(text, maxLen = 200)\<close>; every call of the source passes \<open>maxLen\<close>.\<close>
  "truncate text maxLen =
     (let plain = cleanDescription (stripHtml text)
      in if length plain \<le> maxLen then plain
         else cutLastWord (take maxLen plain) @ ''...'')"

definition cutsMidWord :: "string \<Rightarrow> string \<Rightarrow> bool" where
  \<comment> \<open>The text \<open>kept\<close>, a prefix of \<open>plain\<close>, ends inside a word: its last character and the
      character of \<open>plain\<close> that follows it are both no white space.\<close>
  "cutsMidWord plain kept =
     (kept \<noteq> [] \<and> \<not> isSpace (last kept) \<and> length kept < length plain
      \<and> \<not> isSpace (plain ! length kept))"

definition escapeChar :: "char \<Rightarrow> string" where
  \<comment> \<open>What \<^const>\<open>escapeHtml\<close> makes of one character.\<close>
  \<open>escapeChar c =
     (if c = CHR ''&'' then ''&amp;''
      else if c = CHR ''<'' then ''&lt;''
      else if c = CHR ''>'' then ''&gt;''
      else if c = CHR ''"'' then ''&quot;''
      else [c])\<close>

section \<open>HTML templates: pages\<close>

text \<open>
  A template literal is the concatenation of its literal parts, one string per source line,
  and of its interpolated expressions. The templates of the home page and of the episode
  page are cut into parts at the places the properties below speak about; the parts
  concatenate to the template of the source.
\<close>

definition arraySlice :: "nat \<Rightarrow> nat \<Rightarrow> 'a list \<Rightarrow> 'a list" where
  \<comment> \<open>\<open>xs.slice(start, end)\<close> for indices that are not negative.\<close>
  "arraySlice start end xs = take (end - start) (drop start xs)"

definition findIndex :: "('a \<Rightarrow> bool) \<Rightarrow> 'a list \<Rightarrow> int" where
  \<comment> \<open>\<open>xs.findIndex(p)\<close>: the index of the first element that satisfies \<open>p\<close>, or -1.\<close>
  "findIndex p xs =
     (let k = length (takeWhile (\<lambda>x. \<not> p x) xs)
      in if k < length xs then int k else - 1)"

definition arrayAt :: "'a list \<Rightarrow> int \<Rightarrow> 'a option" where
  \<comment> \<open>\<open>xs[i]\<close>: \<open>undefined\<close>, here \<^const>\<open>None\<close>, outside the array.\<close>
  "arrayAt xs i = (if 0 \<le> i \<and> i < int (length xs) then Some (xs ! nat i) else None)"

fun replaceAllLitUnless :: "string \<Rightarrow> string list \<Rightarrow> string \<Rightarrow> string \<Rightarrow> string" where
  \<comment> \<open>\<open>s.replace(/PAT(?!E1|E2|...)/g, rep)\<close>: a literal pattern with a negative lookahead
      of literal alternatives.\<close>
  "replaceAllLitUnless pat excl rep [] = []"
| "replaceAllLitUnless pat excl rep (c # cs) =
     (if pat \<noteq> [] \<and> litPrefix (=) pat (c # cs)
         \<and> \<not> list_ex (\<lambda>e. litPrefix (=) e (drop (length pat) (c # cs))) excl
      then rep @ replaceAllLitUnless pat excl rep (drop (length pat - 1) cs)
      else c # replaceAllLitUnless pat excl rep cs)"

definition formatDate :: "runtime \<Rightarrow> int option \<Rightarrow> string" where
  \<comment> \<open>The getters of an invalid date return \<open>NaN\<close>: the month name is then \<open>undefined\<close>.\<close>
  "formatDate rt d =
     (case d of
        None \<Rightarrow> ''undefined. NaN, NaN''
      | Some t \<Rightarrow>
          (let months = [''Jan'', ''Feb'', ''Mar'', ''Apr'', ''May'', ''Jun'',
                         ''Jul'', ''Aug'', ''Sep'', ''Oct'', ''Nov'', ''Dec'']
           in (if getMonth rt t < length months then months ! getMonth rt t else ''undefined'')
              @ ''. '' @ showNat (getDate rt t) @ '', '' @ showInt (getFullYear rt t)))"

definition faviconHTML :: "string \<Rightarrow> string" where
  \<comment> \<open>The default of the parameter, the empty prefix, is passed by every call without one.\<close>
  \<open>faviconHTML prefix =
     concat
      [''\<newline>'',
       ''  <link rel="apple-touch-icon" sizes="180x180" href="'',
       prefix,
       ''images/apple-touch-icon.png">\<newline>'',
       ''  <link rel="icon" type="image/png" sizes="32x32" href="'',
       prefix,
       ''images/favicon-32x32.png">'']\<close>

definition navHTML :: "string \<Rightarrow> string" where
  \<open>navHTML activePage =
     concat
      [''\<newline>'',
       ''  <!-- Top Banner -->\<newline>'',
       ''  <div class="top-banner">\<newline>'',
       ''    <a href="https://survivorscience.com" target="_blank" rel="noopener">Go to Main Survivor Science Site</a>\<newline>'',
       ''  </div>\<newline>'',
       ''\<newline>'',
       ''  <!-- Navigation -->\<newline>'',
       ''  <nav class="main-nav">\<newline>'',
       ''    <div class="nav-container">\<newline>'',
       ''      <a href="index.html" class="nav-logo">\<newline>'',
       ''        <img src="images/podcast-artwork.jpg" alt="Survivor Science" class="nav-logo-img">\<newline>'',
       ''        <span class="nav-logo-text">Survivor Science</span>\<newline>'',
       ''      </a>\<newline>'',
       ''      <button class="nav-toggle" aria-label="Toggle navigation">\<newline>'',
       ''        <span></span><span></span><span></span>\<newline>'',
       ''      </button>\<newline>'',
       ''      <div class="nav-links">\<newline>'',
       ''        <a href="index.html" class="'',
       (if activePage = ''home'' then ''active'' else []),
       ''">Home</a>\<newline>'',
       ''        <a href="about.html" class="'',
       (if activePage = ''about'' then ''active'' else []),
       ''">About</a>\<newline>'',
       ''        <a href="episodes.html" class="'',
       (if activePage = ''episodes'' then ''active'' else []),
       ''">Episodes</a>\<newline>'',
       ''        <a href="https://survivorscience.com/contact" target="_blank" rel="noopener">Contact</a>\<newline>'',
       ''        <div class="nav-social">\<newline>'',
       ''          <a href="https://twitter.com/SurvivorSciHQ" target="_blank" rel="noopener" aria-label="Twitter"><svg width="18" height="18" viewBox="0 0 24 24" fill="currentColor"><path d="M18.244 2.25h3.308l-7.227 8.26 8.502 11.24H16.17l-5.214-6.817L4.99 21.75H1.68l7.73-8.835L1.254 2.25H8.08l4.713 6.231zm-1.161 17.52h1.833L7.084 4.126H5.117z"/></svg></a>\<newline>'',
       ''          <a href="https://www.linkedin.com/in/willschmierer/" target="_blank" rel="noopener" aria-label="LinkedIn"><svg width="18" height="18" viewBox="0 0 24 24" fill="currentColor"><path d="M20.447 20.452h-3.554v-5.569c0-1.328-.027-3.037-1.852-3.037-1.853 0-2.136 1.445-2.136 2.939v5.667H9.351V9h3.414v1.561h.046c.477-.9 1.637-1.85 3.37-1.85 3.601 0 4.267 2.37 4.267 5.455v6.286zM5.337 7.433a2.062 2.062 0 01-2.063-2.065 2.064 2.064 0 112.063 2.065zm1.782 13.019H3.555V9h3.564v11.452zM22.225 0H1.771C.792 0 0 .774 0 1.729v20.542C0 23.227.792 24 1.771 24h20.451C23.2 24 24 23.227 24 22.271V1.729C24 .774 23.2 0 22.222 0h.003z"/></svg></a>\<newline>'',
       ''          <a href="https://www.tiktok.com/@SurvivorScienceHQ" target="_blank" rel="noopener" aria-label="TikTok"><svg width="18" height="18" viewBox="0 0 24 24" fill="currentColor"><path d="M12.525.02c1.31-.02 2.61-.01 3.91-.02.08 1.53.63 3.09 1.75 4.17 1.12 1.11 2.7 1.62 4.24 1.79v4.03c-1.44-.05-2.89-.35-4.2-.97-.57-.26-1.1-.59-1.62-.93-.01 2.92.01 5.84-.02 8.75-.08 1.4-.54 2.79-1.35 3.94-1.31 1.92-3.58 3.17-5.91 3.21-1.43.08-2.86-.31-4.08-1.03-2.02-1.19-3.44-3.37-3.65-5.71-.02-.5-.03-1-.01-1.49.18-1.9 1.12-3.72 2.58-4.96 1.66-1.44 3.98-2.13 6.15-1.72.02 1.48-.04 2.96-.04 4.44-.99-.32-2.15-.23-3.02.37-.63.41-1.11 1.04-1.36 1.75-.21.51-.15 1.07-.14 1.61.24 1.64 1.82 3.02 3.5 2.87 1.12-.01 2.19-.66 2.77-1.61.19-.33.4-.67.41-1.06.1-1.79.06-3.57.07-5.36.01-4.03-.01-8.05.02-12.07z"/></svg></a>\<newline>'',
       ''          <a href="https://www.instagram.com/SurvivorScienceHQ/" target="_blank" rel="noopener" aria-label="Instagram"><svg width="18" height="18" viewBox="0 0 24 24" fill="currentColor"><path d="M12 2.163c3.204 0 3.584.012 4.85.07 3.252.148 4.771 1.691 4.919 4.919.058 1.265.069 1.645.069 4.849 0 3.205-.012 3.584-.069 4.849-.149 3.225-1.664 4.771-4.919 4.919-1.266.058-1.644.07-4.85.07-3.204 0-3.584-.012-4.849-.07-3.26-.149-4.771-1.699-4.919-4.92-.058-1.265-.07-1.644-.07-4.849 0-3.204.013-3.583.07-4.849.149-3.227 1.664-4.771 4.919-4.919 1.266-.057 1.645-.069 4.849-.069zM12 0C8.741 0 8.333.014 7.053.072 2.695.272.273 2.69.073 7.052.014 8.333 0 8.741 0 12c0 3.259.014 3.668.072 4.948.2 4.358 2.618 6.78 6.98 6.98C8.333 23.986 8.741 24 12 24c3.259 0 3.668-.014 4.948-.072 4.354-.2 6.782-2.618 6.979-6.98.059-1.28.073-1.689.073-4.948 0-3.259-.014-3.667-.072-4.947-.196-4.354-2.617-6.78-6.979-6.98C15.668.014 15.259 0 12 0zm0 5.838a6.162 6.162 0 100 12.324 6.162 6.162 0 000-12.324zM12 16a4 4 0 110-8 4 4 0 010 8zm6.406-11.845a1.44 1.44 0 100 2.881 1.44 1.44 0 000-2.881z"/></svg></a>\<newline>'',
       ''          <a href="https://www.youtube.com/@SurvivorScienceHQ" target="_blank" rel="noopener" aria-label="YouTube"><svg width="18" height="18" viewBox="0 0 24 24" fill="currentColor"><path d="M23.498 6.186a3.016 3.016 0 00-2.122-2.136C19.505 3.545 12 3.545 12 3.545s-7.505 0-9.377.505A3.017 3.017 0 00.502 6.186C0 8.07 0 12 0 12s0 3.93.502 5.814a3.016 3.016 0 002.122 2.136c1.871.505 9.376.505 9.376.505s7.505 0 9.377-.505a3.015 3.015 0 002.122-2.136C24 15.93 24 12 24 12s0-3.93-.502-5.814zM9.545 15.568V8.432L15.818 12l-6.273 3.568z"/></svg></a>\<newline>'',
       ''        </div>\<newline>'',
       ''      </div>\<newline>'',
       ''    </div>\<newline>'',
       ''  </nav>'']\<close>

definition footerHTML :: "string" where
  \<open>footerHTML =
     concat
      [''\<newline>'',
       ''  <footer class="site-footer">\<newline>'',
       ''    <div class="footer-container">\<newline>'',
       ''      <div class="footer-about">\<newline>'',
       ''        <div class="footer-logo">Survivor Science</div>\<newline>'',
       ''        <p>The Survivor Science Podcast is about sharing the struggles, successes, and science behind, navigating your second chance at life!</p>\<newline>'',
       ''        <p>We are building a community of survivors of all kinds to learn, grow, share and connect from each other and individual experiences to help others learn what works as well!</p>\<newline>'',
       ''        <p>Whether it'',
       [CHR 0x27],
       ''s tips for managing daily tasks or advice for how to stay motivated, we'',
       [CHR 0x27],
       ''ve got you covered on the road to recovery. You don'',
       [CHR 0x27],
       ''t have to go out alone!</p>\<newline>'',
       ''      </div>\<newline>'',
       ''      <div class="footer-links">\<newline>'',
       ''        <div class="footer-col">\<newline>'',
       ''          <a href="episodes.html">Episodes</a>\<newline>'',
       ''          <a href="about.html">About</a>\<newline>'',
       ''        </div>\<newline>'',
       ''        <div class="footer-col">\<newline>'',
       ''          <a href="https://survivorscience.com/contact" target="_blank" rel="noopener">Contact</a>\<newline>'',
       ''          <a href="https://survivorscience.com" target="_blank" rel="noopener">Main Site</a>\<newline>'',
       ''        </div>\<newline>'',
       ''      </div>\<newline>'',
       ''      <div class="footer-social">\<newline>'',
       ''        <a href="https://twitter.com/SurvivorSciHQ" target="_blank" rel="noopener" aria-label="Twitter"><svg width="20" height="20" viewBox="0 0 24 24" fill="currentColor"><path d="M18.244 2.25h3.308l-7.227 8.26 8.502 11.24H16.17l-5.214-6.817L4.99 21.75H1.68l7.73-8.835L1.254 2.25H8.08l4.713 6.231zm-1.161 17.52h1.833L7.084 4.126H5.117z"/></svg></a>\<newline>'',
       ''        <a href="https://www.linkedin.com/in/willschmierer/" target="_blank" rel="noopener" aria-label="LinkedIn"><svg width="20" height="20" viewBox="0 0 24 24" fill="currentColor"><path d="M20.447 20.452h-3.554v-5.569c0-1.328-.027-3.037-1.852-3.037-1.853 0-2.136 1.445-2.136 2.939v5.667H9.351V9h3.414v1.561h.046c.477-.9 1.637-1.85 3.37-1.85 3.601 0 4.267 2.37 4.267 5.455v6.286zM5.337 7.433a2.062 2.062 0 01-2.063-2.065 2.064 2.064 0 112.063 2.065zm1.782 13.019H3.555V9h3.564v11.452zM22.225 0H1.771C.792 0 0 .774 0 1.729v20.542C0 23.227.792 24 1.771 24h20.451C23.2 24 24 23.227 24 22.271V1.729C24 .774 23.2 0 22.222 0h.003z"/></svg></a>\<newline>'',
       ''        <a href="https://www.tiktok.com/@SurvivorScienceHQ" target="_blank" rel="noopener" aria-label="TikTok"><svg width="20" height="20" viewBox="0 0 24 24" fill="currentColor"><path d="M12.525.02c1.31-.02 2.61-.01 3.91-.02.08 1.53.63 3.09 1.75 4.17 1.12 1.11 2.7 1.62 4.24 1.79v4.03c-1.44-.05-2.89-.35-4.2-.97-.57-.26-1.1-.59-1.62-.93-.01 2.92.01 5.84-.02 8.75-.08 1.4-.54 2.79-1.35 3.94-1.31 1.92-3.58 3.17-5.91 3.21-1.43.08-2.86-.31-4.08-1.03-2.02-1.19-3.44-3.37-3.65-5.71-.02-.5-.03-1-.01-1.49.18-1.9 1.12-3.72 2.58-4.96 1.66-1.44 3.98-2.13 6.15-1.72.02 1.48-.04 2.96-.04 4.44-.99-.32-2.15-.23-3.02.37-.63.41-1.11 1.04-1.36 1.75-.21.51-.15 1.07-.14 1.61.24 1.64 1.82 3.02 3.5 2.87 1.12-.01 2.19-.66 2.77-1.61.19-.33.4-.67.41-1.06.1-1.79.06-3.57.07-5.36.01-4.03-.01-8.05.02-12.07z"/></svg></a>\<newline>'',
       ''        <a href="https://www.instagram.com/SurvivorScienceHQ/" target="_blank" rel="noopener" aria-label="Instagram"><svg width="20" height="20" viewBox="0 0 24 24" fill="currentColor"><path d="M12 2.163c3.204 0 3.584.012 4.85.07 3.252.148 4.771 1.691 4.919 4.919.058 1.265.069 1.645.069 4.849 0 3.205-.012 3.584-.069 4.849-.149 3.225-1.664 4.771-4.919 4.919-1.266.058-1.644.07-4.85.07-3.204 0-3.584-.012-4.849-.07-3.26-.149-4.771-1.699-4.919-4.92-.058-1.265-.07-1.644-.07-4.849 0-3.204.013-3.583.07-4.849.149-3.227 1.664-4.771 4.919-4.919 1.266-.057 1.645-.069 4.849-.069zM12 0C8.741 0 8.333.014 7.053.072 2.695.272.273 2.69.073 7.052.014 8.333 0 8.741 0 12c0 3.259.014 3.668.072 4.948.2 4.358 2.618 6.78 6.98 6.98C8.333 23.986 8.741 24 12 24c3.259 0 3.668-.014 4.948-.072 4.354-.2 6.782-2.618 6.979-6.98.059-1.28.073-1.689.073-4.948 0-3.259-.014-3.667-.072-4.947-.196-4.354-2.617-6.78-6.979-6.98C15.668.014 15.259 0 12 0zm0 5.838a6.162 6.162 0 100 12.324 6.162 6.162 0 000-12.324zM12 16a4 4 0 110-8 4 4 0 010 8zm6.406-11.845a1.44 1.44 0 100 2.881 1.44 1.44 0 000-2.881z"/></svg></a>\<newline>'',
       ''        <a href="https://www.youtube.com/@SurvivorScienceHQ" target="_blank" rel="noopener" aria-label="YouTube"><svg width="20" height="20" viewBox="0 0 24 24" fill="currentColor"><path d="M23.498 6.186a3.016 3.016 0 00-2.122-2.136C19.505 3.545 12 3.545 12 3.545s-7.505 0-9.377.505A3.017 3.017 0 00.502 6.186C0 8.07 0 12 0 12s0 3.93.502 5.814a3.016 3.016 0 002.122 2.136c1.871.505 9.376.505 9.376.505s7.505 0 9.377-.505a3.015 3.015 0 002.122-2.136C24 15.93 24 12 24 12s0-3.93-.502-5.814zM9.545 15.568V8.432L15.818 12l-6.273 3.568z"/></svg></a>\<newline>'',
       ''      </div>\<newline>'',
       ''    </div>\<newline>'',
       ''    <div class="footer-bottom">\<newline>'',
       ''      <span>&copy; Survivor Science</span>\<newline>'',
       ''    </div>\<newline>'',
       ''  </footer>'']\<close>

definition sidebarItemHTML :: "episode \<Rightarrow> string" where
  \<comment> \<open>The arrow function that \<open>sidebarHTML\<close> maps over the recent episodes.\<close>
  \<open>sidebarItemHTML ep =
     concat
      [''\<newline>'',
       ''          <li><a href="episodes/'',
       episode ep,
       ''.html">'',
       (if episode ep \<noteq> [] then episode ep @ ''. '' else []),
       title ep,
       ''</a></li>\<newline>'',
       ''          '']\<close>

definition sidebarTop :: "string" where
  \<comment> \<open>The template of \<open>sidebarHTML\<close> up to the items of the recent episodes.\<close>
  \<open>sidebarTop =
     concat
      [''\<newline>'',
       ''    <aside class="sidebar">\<newline>'',
       ''      <div class="sidebar-listen">\<newline>'',
       ''        <h3>LISTEN ON</h3>\<newline>'',
       ''        <ul class="listen-links">\<newline>'',
       ''          <li><a href="https://podcasts.apple.com/us/podcast/survivor-science/id1667418261" target="_blank" rel="noopener"><svg width="20" height="20" viewBox="0 0 24 24" fill="#872ec4"><path d="M5.34 0A5.328 5.328 0 000 5.34v13.32A5.328 5.328 0 005.34 24h13.32A5.328 5.328 0 0024 18.66V5.34A5.328 5.328 0 0018.66 0zm6.525 2.568c2.336 0 4.448.902 6.056 2.587 1.076 1.126 1.772 2.445 2.064 3.93.122.62-.26 1.22-.853 1.342a1.088 1.088 0 01-1.283-.856c-.213-1.078-.72-2.038-1.506-2.86C14.985 5.29 13.4 4.58 11.676 4.6c-1.724.02-3.3.753-4.622 2.18-.79.852-1.27 1.826-1.454 2.91-.152.614-.762.988-1.36.836a1.102 1.102 0 01-.834-1.363c.258-1.494.924-2.833 1.978-3.983 1.582-1.727 3.672-2.655 6.04-2.612zm.18 3.252c1.604.008 3.064.678 4.1 1.804.712.774 1.156 1.678 1.333 2.696.112.638-.316 1.244-.948 1.356a1.102 1.102 0 01-1.282-.88 3.124 3.124 0 00-.764-1.538c-.59-.644-1.426-1.025-2.348-1.035-.928-.012-1.772.352-2.376.984-.434.454-.732.992-.87 1.57-.165.606-.79.964-1.398.798a1.1 1.1 0 01-.79-1.398 5.36 5.36 0 011.503-2.706c.984-1.024 2.33-1.632 3.782-1.654zm-.032 4.804c1.172-.012 2.156.924 2.156 2.124-.002.396-.124.768-.328 1.09l-.004.01-.016.02c-.04.06-.082.117-.127.17l-1.486 3.03c-.248.554-.842.71-1.312.482a.986.986 0 01-.478-1.316l.008-.018 1.112-2.272-.034-.002a2.138 2.138 0 01-.663-.358 2.103 2.103 0 01-.796-1.638c-.008-1.196.798-2.31 1.968-2.322z"/></svg> Apple Podcasts</a></li>\<newline>'',
       ''          <li><a href="https://open.spotify.com/show/1Pn79nkerjQ7vXK0V2Wfif" target="_blank" rel="noopener"><svg width="20" height="20" viewBox="0 0 24 24" fill="#1DB954"><path d="M12 0C5.4 0 0 5.4 0 12s5.4 12 12 12 12-5.4 12-12S18.66 0 12 0zm5.521 17.34c-.24.359-.66.48-1.021.24-2.82-1.74-6.36-2.101-10.561-1.141-.418.122-.779-.179-.899-.539-.12-.421.18-.78.54-.9 4.56-1.021 8.52-.6 11.64 1.32.42.18.479.659.301 1.02zm1.44-3.3c-.301.42-.841.6-1.262.3-3.239-1.98-8.159-2.58-11.939-1.38-.479.12-1.02-.12-1.14-.6-.12-.48.12-1.021.6-1.141C9.6 9.9 15 10.561 18.72 12.84c.361.181.54.78.241 1.2zm.12-3.36C15.24 8.4 8.82 8.16 5.16 9.301c-.6.179-1.2-.181-1.38-.721-.18-.601.18-1.2.72-1.381 4.26-1.26 11.28-1.02 15.721 1.621.539.3.719 1.02.419 1.56-.299.421-1.02.599-1.559.3z"/></svg> Spotify</a></li>\<newline>'',
       ''          <li><a href="https://rss.buzzsprout.com/2117363.rss" target="_blank" rel="noopener"><svg width="20" height="20" viewBox="0 0 24 24" fill="#f26522"><path d="M6.503 20.752c0 1.794-1.456 3.248-3.251 3.248-1.796 0-3.252-1.454-3.252-3.248 0-1.794 1.456-3.248 3.252-3.248 1.795.001 3.251 1.454 3.251 3.248zm-6.503-12.572v4.811c6.05.062 10.96 4.966 11.022 11.009h4.817c-.062-8.71-7.118-15.758-15.839-15.82zm0-8.18v4.819c12.951.115 23.424 10.617 23.5 23.581h4.82c-.077-15.683-12.818-28.395-28.32-28.4z"/></svg> RSS Feed</a></li>\<newline>'',
       ''        </ul>\<newline>'',
       ''      </div>\<newline>'',
       ''      <div class="sidebar-recent">\<newline>'',
       ''        <h3>RECENT EPISODES</h3>\<newline>'',
       ''        <ul class="recent-episodes-list">\<newline>'',
       ''          '']\<close>

definition sidebarBottom :: "string" where
  \<comment> \<open>The template of \<open>sidebarHTML\<close> after the items.\<close>
  \<open>sidebarBottom =
     concat
      [''\<newline>'',
       ''        </ul>\<newline>'',
       ''        <a href="episodes.html" class="see-all">See all &rarr;</a>\<newline>'',
       ''      </div>\<newline>'',
       ''    </aside>'']\<close>

definition sidebarHTML :: "episode list \<Rightarrow> string" where
  "sidebarHTML episodes =
     (let recentEps = arraySlice 0 10 episodes
      in sidebarTop @ concat (map sidebarItemHTML recentEps) @ sidebarBottom)"

definition listenOnHTML :: "string" where
  \<open>listenOnHTML =
     concat
      [''\<newline>'',
       ''  <div class="listen-on-buttons">\<newline>'',
       ''    <a href="https://podcasts.apple.com/us/podcast/survivor-science/id1667418261" target="_blank" rel="noopener" class="listen-btn"><svg width="20" height="20" viewBox="0 0 24 24" fill="#872ec4"><path d="M5.34 0A5.328 5.328 0 000 5.34v13.32A5.328 5.328 0 005.34 24h13.32A5.328 5.328 0 0024 18.66V5.34A5.328 5.328 0 0018.66 0zm6.525 2.568c2.336 0 4.448.902 6.056 2.587 1.076 1.126 1.772 2.445 2.064 3.93.122.62-.26 1.22-.853 1.342a1.088 1.088 0 01-1.283-.856c-.213-1.078-.72-2.038-1.506-2.86C14.985 5.29 13.4 4.58 11.676 4.6c-1.724.02-3.3.753-4.622 2.18-.79.852-1.27 1.826-1.454 2.91-.152.614-.762.988-1.36.836a1.102 1.102 0 01-.834-1.363c.258-1.494.924-2.833 1.978-3.983 1.582-1.727 3.672-2.655 6.04-2.612zm.18 3.252c1.604.008 3.064.678 4.1 1.804.712.774 1.156 1.678 1.333 2.696.112.638-.316 1.244-.948 1.356a1.102 1.102 0 01-1.282-.88 3.124 3.124 0 00-.764-1.538c-.59-.644-1.426-1.025-2.348-1.035-.928-.012-1.772.352-2.376.984-.434.454-.732.992-.87 1.57-.165.606-.79.964-1.398.798a1.1 1.1 0 01-.79-1.398 5.36 5.36 0 011.503-2.706c.984-1.024 2.33-1.632 3.782-1.654zm-.032 4.804c1.172-.012 2.156.924 2.156 2.124-.002.396-.124.768-.328 1.09l-.004.01-.016.02c-.04.06-.082.117-.127.17l-1.486 3.03c-.248.554-.842.71-1.312.482a.986.986 0 01-.478-1.316l.008-.018 1.112-2.272-.034-.002a2.138 2.138 0 01-.663-.358 2.103 2.103 0 01-.796-1.638c-.008-1.196.798-2.31 1.968-2.322z"/></svg> Apple Podcasts</a>\<newline>'',
       ''    <a href="https://open.spotify.com/show/1Pn79nkerjQ7vXK0V2Wfif" target="_blank" rel="noopener" class="listen-btn"><svg width="20" height="20" viewBox="0 0 24 24" fill="#1DB954"><path d="M12 0C5.4 0 0 5.4 0 12s5.4 12 12 12 12-5.4 12-12S18.66 0 12 0zm5.521 17.34c-.24.359-.66.48-1.021.24-2.82-1.74-6.36-2.101-10.561-1.141-.418.122-.779-.179-.899-.539-.12-.421.18-.78.54-.9 4.56-1.021 8.52-.6 11.64 1.32.42.18.479.659.301 1.02zm1.44-3.3c-.301.42-.841.6-1.262.3-3.239-1.98-8.159-2.58-11.939-1.38-.479.12-1.02-.12-1.14-.6-.12-.48.12-1.021.6-1.141C9.6 9.9 15 10.561 18.72 12.84c.361.181.54.78.241 1.2zm.12-3.36C15.24 8.4 8.82 8.16 5.16 9.301c-.6.179-1.2-.181-1.38-.721-.18-.601.18-1.2.72-1.381 4.26-1.26 11.28-1.02 15.721 1.621.539.3.719 1.02.419 1.56-.299.421-1.02.599-1.559.3z"/></svg> Spotify</a>\<newline>'',
       ''  </div>'']\<close>

definition episodeCardHTML :: "runtime \<Rightarrow> episode \<Rightarrow> string" where
  \<open>episodeCardHTML rt ep =
     concat
      [''\<newline>'',
       ''          <article class="episode-card">\<newline>'',
       ''            <a href="episodes/'',
       episode ep,
       ''.html" class="episode-card-image">\<newline>'',
       ''              <img src="'',
       (if episodeImage ep \<noteq> [] then episodeImage ep else ''images/podcast-artwork.jpg''),
       ''" alt="'',
       escapeHtml (fullTitle ep),
       ''" loading="lazy">\<newline>'',
       ''            </a>\<newline>'',
       ''            <div class="episode-card-content">\<newline>'',
       ''              <time class="episode-date">'',
       formatDate rt (date ep),
       ''</time>\<newline>'',
       ''              <h3 class="episode-card-title">\<newline>'',
       ''                <a href="episodes/'',
       episode ep,
       ''.html">'',
       (if episode ep \<noteq> [] then episode ep @ ''. '' else []),
       escapeHtml (title ep),
       ''</a>\<newline>'',
       ''              </h3>\<newline>'',
       ''              <p class="episode-card-desc">'',
       escapeHtml (truncate (description ep) 180),
       ''</p>\<newline>'',
       ''              <a href="episodes/'',
       episode ep,
       ''.html" class="episode-listen-link">&rarr; Listen to the Episode</a>\<newline>'',
       ''            </div>\<newline>'',
       ''          </article>'']\<close>

definition homePageHead :: "podcastMeta \<Rightarrow> string" where
  \<comment> \<open>The template of \<open>generateHomePage\<close> up to the hero section: the head and the navigation.\<close>
  \<open>homePageHead podcastMeta =
     concat
      [''<!DOCTYPE html>\<newline>'',
       ''<html lang="en">\<newline>'',
       ''<head>\<newline>'',
       ''  <meta charset="UTF-8">\<newline>'',
       ''  <meta name="viewport" content="width=device-width, initial-scale=1.0">\<newline>'',
       ''  <title>Survivor Science Podcast Archive</title>\<newline>'',
       ''  <meta name="description" content="'',
       escapeHtml (cleanDescription (stripHtml (podcastDescription podcastMeta))),
       ''">\<newline>'',
       ''  <meta property="og:title" content="Survivor Science Podcast Archive">\<newline>'',
       ''  <meta property="og:description" content="'',
       escapeHtml (cleanDescription (stripHtml (podcastDescription podcastMeta))),
       ''">\<newline>'',
       ''  <meta property="og:image" content="images/og-image.png">\<newline>'',
       ''  <meta property="og:type" content="website">\<newline>'',
       ''  '',
       faviconHTML [],
       ''\<newline>'',
       ''  <link rel="preconnect" href="https://fonts.googleapis.com">\<newline>'',
       ''  <link rel="preconnect" href="https://fonts.gstatic.com" crossorigin>\<newline>'',
       ''  <link href="https://fonts.googleapis.com/css2?family=Figtree:wght@400;500;600;700;800;900&display=swap" rel="stylesheet">\<newline>'',
       ''  <link rel="stylesheet" href="css/style.css">\<newline>'',
       ''</head>\<newline>'',
       ''<body>\<newline>'',
       ''  '',
       navHTML ''home'',
       ''\<newline>'',
       ''\<newline>'',
       ''  '']\<close>

definition heroSectionHTML :: "episode \<Rightarrow> string" where
  \<comment> \<open>The hero section of the template of \<open>generateHomePage\<close>.\<close>
  \<open>heroSectionHTML latest =
     concat
      [''<!-- Hero Section -->\<newline>'',
       ''  <section class="hero">\<newline>'',
       ''    <div class="hero-container">\<newline>'',
       ''      <div class="hero-content">\<newline>'',
       ''        <span class="hero-label">LATEST EPISODE</span>\<newline>'',
       ''        <h1 class="hero-title">'',
       (if episode latest \<noteq> [] then episode latest @ ''. '' else []),
       escapeHtml (title latest),
       ''</h1>\<newline>'',
       ''        <p class="hero-description">'',
       escapeHtml (truncate (description latest) 250),
       ''</p>\<newline>'',
       ''        <a href="episodes/'',
       episode latest,
       ''.html" class="btn-play">\<newline>'',
       ''          <svg width="18" height="18" viewBox="0 0 24 24" fill="white"><path d="M8 5v14l11-7z"/></svg>\<newline>'',
       ''          Play Latest Episode\<newline>'',
       ''        </a>\<newline>'',
       ''      </div>\<newline>'',
       ''      <div class="hero-artwork">\<newline>'',
       ''        <img src="images/podcast-artwork.jpg" alt="Survivor Science Podcast Artwork">\<newline>'',
       ''      </div>\<newline>'',
       ''    </div>\<newline>'',
       ''  </section>\<newline>'',
       ''\<newline>'',
       ''  '']\<close>

definition recentSectionOpen :: "string" where
  \<comment> \<open>The template of \<open>generateHomePage\<close> from the section of the recent episodes up to its cards.\<close>
  \<open>recentSectionOpen =
     concat
      [''<!-- Recent Episodes -->\<newline>'',
       ''  <section class="recent-episodes">\<newline>'',
       ''    <div class="recent-container">\<newline>'',
       ''      <div class="recent-main">\<newline>'',
       ''        <div class="section-header">\<newline>'',
       ''          <h2>Recent Episodes</h2>\<newline>'',
       ''          <a href="episodes.html" class="view-all">View all &rarr;</a>\<newline>'',
       ''        </div>\<newline>'',
       ''        <div class="episode-grid">\<newline>'',
       ''          '']\<close>

definition homePageBottom :: "episode list \<Rightarrow> string" where
  \<comment> \<open>The template of \<open>generateHomePage\<close> after the cards: the sidebar and the footer.\<close>
  \<open>homePageBottom episodes =
     concat
      [''\<newline>'',
       ''        </div>\<newline>'',
       ''      </div>\<newline>'',
       ''      '',
       sidebarHTML episodes,
       ''\<newline>'',
       ''    </div>\<newline>'',
       ''  </section>\<newline>'',
       ''\<newline>'',
       ''  '',
       footerHTML,
       ''\<newline>'',
       ''  <script src="js/main.js"></script>\<newline>'',
       ''</body>\<newline>'',
       ''</html>'']\<close>

definition generateEpisodesPage :: "runtime \<Rightarrow> episode list \<Rightarrow> string" where
  \<open>generateEpisodesPage rt episodes =
     concat
      [''<!DOCTYPE html>\<newline>'',
       ''<html lang="en">\<newline>'',
       ''<head>\<newline>'',
       ''  <meta charset="UTF-8">\<newline>'',
       ''  <meta name="viewport" content="width=device-width, initial-scale=1.0">\<newline>'',
       ''  <title>All Episodes - Survivor Science Podcast Archive</title>\<newline>'',
       ''  <meta name="description" content="Browse all episodes of the Survivor Science podcast.">\<newline>'',
       ''  '',
       faviconHTML [],
       ''\<newline>'',
       ''  <link rel="preconnect" href="https://fonts.googleapis.com">\<newline>'',
       ''  <link rel="preconnect" href="https://fonts.gstatic.com" crossorigin>\<newline>'',
       ''  <link href="https://fonts.googleapis.com/css2?family=Figtree:wght@400;500;600;700;800;900&display=swap" rel="stylesheet">\<newline>'',
       ''  <link rel="stylesheet" href="css/style.css">\<newline>'',
       ''</head>\<newline>'',
       ''<body>\<newline>'',
       ''  '',
       navHTML ''episodes'',
       ''\<newline>'',
       ''\<newline>'',
       ''  <section class="episodes-hero">\<newline>'',
       ''    <h1>Episodes</h1>\<newline>'',
       ''  </section>\<newline>'',
       ''\<newline>'',
       ''  <section class="episodes-list-section">\<newline>'',
       ''    <div class="episodes-container">\<newline>'',
       ''      <div class="episodes-search">\<newline>'',
       ''        <input type="text" id="episode-search" placeholder="Search episodes..." aria-label="Search episodes">\<newline>'',
       ''        <svg class="search-icon" width="20" height="20" viewBox="0 0 24 24" fill="none" stroke="currentColor" stroke-width="2"><circle cx="11" cy="11" r="8"/><path d="m21 21-4.35-4.35"/></svg>\<newline>'',
       ''      </div>\<newline>'',
       ''      <div class="episode-grid episode-grid-full" id="episodes-grid">\<newline>'',
       ''        '',
       concat (map (episodeCardHTML rt) episodes),
       ''\<newline>'',
       ''      </div>\<newline>'',
       ''      <p class="no-results" id="no-results" style="display:none;">No episodes found matching your search.</p>\<newline>'',
       ''    </div>\<newline>'',
       ''  </section>\<newline>'',
       ''\<newline>'',
       ''  '',
       footerHTML,
       ''\<newline>'',
       ''  <script src="js/main.js"></script>\<newline>'',
       ''</body>\<newline>'',
       ''</html>'']\<close>

definition playerEmbed :: "episode \<Rightarrow> string" where
  \<open>playerEmbed ep =
     (if buzzsproutId ep \<noteq> [] then
        concat
         [''<div class="buzzsprout-player"><iframe src="https://www.buzzsprout.com/2117363/'',
          buzzsproutId ep,
          ''?client_source=small_player&iframe=true" loading="lazy" width="100%" height="200" frameborder="0" scrolling="no" title="Survivor Science, '',
          escapeHtml (fullTitle ep),
          ''"></iframe></div>'']
      else
        concat
         [''<audio controls preload="none" class="episode-audio"><source src="'',
          audioUrl ep,
          ''" type="audio/mpeg">Your browser does not support the audio element.</audio>''])\<close>

definition episodePageTop :: "runtime \<Rightarrow> episode \<Rightarrow> string" where
  \<comment> \<open>The template of \<open>generateEpisodePage\<close> up to the episode navigation.\<close>
  \<open>episodePageTop rt ep =
     concat
      [''<!DOCTYPE html>\<newline>'',
       ''<html lang="en">\<newline>'',
       ''<head>\<newline>'',
       ''  <meta charset="UTF-8">\<newline>'',
       ''  <meta name="viewport" content="width=device-width, initial-scale=1.0">\<newline>'',
       ''  <title>'',
       escapeHtml (fullTitle ep),
       '' - Survivor Science Podcast</title>\<newline>'',
       ''  <meta name="description" content="'',
       escapeHtml (truncate (description ep) 160),
       ''">\<newline>'',
       ''  <meta property="og:title" content="'',
       escapeHtml (cleanDescription (stripHtml (fullTitle ep))),
       ''">\<newline>'',
       ''  <meta property="og:description" content="'',
       escapeHtml (truncate (description ep) 160),
       ''">\<newline>'',
       ''  <meta property="og:image" content="'',
       (if episodeImage ep \<noteq> [] then episodeImage ep else ''images/podcast-artwork.jpg''),
       ''">\<newline>'',
       ''  <meta property="og:type" content="article">\<newline>'',
       ''  '',
       faviconHTML ''../'',
       ''\<newline>'',
       ''  <link rel="preconnect" href="https://fonts.googleapis.com">\<newline>'',
       ''  <link rel="preconnect" href="https://fonts.gstatic.com" crossorigin>\<newline>'',
       ''  <link href="https://fonts.googleapis.com/css2?family=Figtree:wght@400;500;600;700;800;900&display=swap" rel="stylesheet">\<newline>'',
       ''  <link rel="stylesheet" href="../css/style.css">\<newline>'',
       ''</head>\<newline>'',
       ''<body>\<newline>'',
       ''  '',
       replaceAllLitUnless ''src="'' [''http'', ''#'', ''mailto''] ''src="../''
         (replaceAllLitUnless ''href="'' [''http'', ''#'', ''mailto''] ''href="../'' (navHTML ''episodes'')),
       ''\<newline>'',
       ''\<newline>'',
       ''  <article class="episode-detail">\<newline>'',
       ''    <div class="episode-detail-container">\<newline>'',
       ''      <div class="episode-detail-main">\<newline>'',
       ''        <time class="episode-date">'',
       formatDate rt (date ep),
       ''</time>\<newline>'',
       ''        <h1 class="episode-detail-title">'',
       (if episode ep \<noteq> [] then episode ep @ ''. '' else []),
       escapeHtml (title ep),
       ''</h1>\<newline>'',
       ''\<newline>'',
       ''        <div class="episode-meta">\<newline>'',
       ''          '',
       (if duration ep \<noteq> [] then
          concat
           [''<span class="episode-duration">'',
            duration ep,
            ''</span>'']
        else []),
       ''\<newline>'',
       ''          '',
       (if season ep \<noteq> [] then
          concat
           [''<span class="episode-season">Season '',
            season ep,
            ''</span>'']
        else []),
       ''\<newline>'',
       ''        </div>\<newline>'',
       ''\<newline>'',
       ''        <div class="episode-artwork-large">\<newline>'',
       ''          <img src="'',
       (if episodeImage ep \<noteq> [] then episodeImage ep else ''../images/podcast-artwork.jpg''),
       ''" alt="'',
       escapeHtml (fullTitle ep),
       ''">\<newline>'',
       ''        </div>\<newline>'',
       ''\<newline>'',
       ''        '',
       playerEmbed ep,
       ''\<newline>'',
       ''\<newline>'',
       ''        '',
       listenOnHTML,
       ''\<newline>'',
       ''\<newline>'',
       ''        <div class="episode-show-notes">\<newline>'',
       ''          <h2>Show Notes</h2>\<newline>'',
       ''          <div class="show-notes-content">\<newline>'',
       ''            '',
       (if litPrefix ciEq ''Send us a text'' (description ep)
        then drop (length ''Send us a text'') (description ep) else description ep),
       ''\<newline>'',
       ''          </div>\<newline>'',
       ''        </div>\<newline>'',
       ''\<newline>'',
       ''        '']\<close>

definition episodeNavHTML :: "episode option \<Rightarrow> episode option \<Rightarrow> string" where
  \<comment> \<open>The episode navigation of the template of \<open>generateEpisodePage\<close>; \<^const>\<open>None\<close> is \<open>undefined\<close>.\<close>
  \<open>episodeNavHTML prevEp nextEp =
     concat
      [''<nav class="episode-nav">\<newline>'',
       ''          '',
       (case prevEp of
          Some p \<Rightarrow>
            concat
             [''<a href="'',
              episode p,
              ''.html" class="episode-nav-link episode-nav-prev">&larr; Episode '',
              episode p,
              ''</a>'']
        | None \<Rightarrow> ''<span></span>''),
       ''\<newline>'',
       ''          <a href="../episodes.html" class="episode-nav-link episode-nav-all">All Episodes</a>\<newline>'',
       ''          '',
       (case nextEp of
          Some n \<Rightarrow>
            concat
             [''<a href="'',
              episode n,
              ''.html" class="episode-nav-link episode-nav-next">Episode '',
              episode n,
              '' &rarr;</a>'']
        | None \<Rightarrow> ''<span></span>''),
       ''\<newline>'',
       ''        </nav>'']\<close>

definition episodePageBottom :: "episode list \<Rightarrow> string" where
  \<comment> \<open>The template of \<open>generateEpisodePage\<close> after the episode navigation.\<close>
  \<open>episodePageBottom allEpisodes =
     concat
      [''\<newline>'',
       ''      </div>\<newline>'',
       ''\<newline>'',
       ''      '',
       replaceAllLit ''href="episodes/'' ''href="'' (sidebarHTML allEpisodes),
       ''\<newline>'',
       ''    </div>\<newline>'',
       ''  </article>\<newline>'',
       ''\<newline>'',
       ''  '',
       replaceAllLitUnless ''src="'' [''http'', ''#'', ''mailto''] ''src="../''
         (replaceAllLitUnless ''href="'' [''http'', ''#'', ''mailto''] ''href="../'' footerHTML),
       ''\<newline>'',
       ''  <script src="../js/main.js"></script>\<newline>'',
       ''</body>\<newline>'',
       ''</html>'']\<close>

definition homePageHTML ::
  "runtime \<Rightarrow> podcastMeta \<Rightarrow> episode \<Rightarrow> episode list \<Rightarrow> episode list \<Rightarrow> string" where
  \<comment> \<open>The template of \<open>generateHomePage\<close> for the bindings \<open>latest\<close> and \<open>recent\<close>.\<close>
  "homePageHTML rt podcastMeta latest recent episodes =
     homePageHead podcastMeta @ heroSectionHTML latest @ recentSectionOpen
     @ concat (map (episodeCardHTML rt) recent)
     @ homePageBottom episodes"

definition generateHomePage :: "runtime \<Rightarrow> episode list \<Rightarrow> podcastMeta \<Rightarrow> jsError + string" where
  \<comment> \<open>\<open>latest = episodes[0]\<close> is \<open>undefined\<close> for an empty collection, and reading
      \<open>latest.episode\<close> then throws a \<open>TypeError\<close>.\<close>
  "generateHomePage rt episodes podcastMeta =
     (case arrayAt episodes 0 of
        None \<Rightarrow> Inl TypeError
      | Some latest \<Rightarrow>
          (let recent = arraySlice 0 6 episodes
           in Inr (homePageHTML rt podcastMeta latest recent episodes)))"

definition episodePageHTML ::
  "runtime \<Rightarrow> episode \<Rightarrow> episode option \<Rightarrow> episode option \<Rightarrow> episode list \<Rightarrow> string" where
  \<comment> \<open>The template of \<open>generateEpisodePage\<close> for the bindings \<open>prevEp\<close> and \<open>nextEp\<close>.\<close>
  "episodePageHTML rt ep prevEp nextEp allEpisodes =
     episodePageTop rt ep @ episodeNavHTML prevEp nextEp @ episodePageBottom allEpisodes"

definition generateEpisodePage :: "runtime \<Rightarrow> episode \<Rightarrow> episode list \<Rightarrow> episode list \<Rightarrow> string" where
  "generateEpisodePage rt ep episodes allEpisodes =
     (let epIndex = findIndex (\<lambda>e. episode e = episode ep) allEpisodes;
          prevEp = arrayAt allEpisodes (epIndex + 1);
          nextEp = arrayAt allEpisodes (epIndex - 1)
      in episodePageHTML rt ep prevEp nextEp allEpisodes)"

definition toLowerCase :: "string \<Rightarrow> string" where
  \<comment> \<open>\<open>s.toLowerCase()\<close> on the code units 0..255: the letters A..Z and the accented capital
      letters 0xC0..0xDE, the multiplication sign 0xD7 apart, move up by 32.\<close>
  "toLowerCase s =
     map (\<lambda>c. let n = (of_char c :: nat)
               in if (65 \<le> n \<and> n \<le> 90) \<or> (192 \<le> n \<and> n \<le> 222 \<and> n \<noteq> 215)
                  then char_of (n + 32) else c) s"

definition isSlugChar :: "char \<Rightarrow> bool" where
  \<comment> \<open>The class \<open>[a-z0-9]\<close>.\<close>
  "isSlugChar c = (c \<in> set ''abcdefghijklmnopqrstuvwxyz0123456789'')"

function hyphenate :: "string \<Rightarrow> string" where
  \<comment> \<open>\<open>s.replace(/[^a-z0-9]+/g, '-')\<close>\<close>
  "hyphenate [] = []"
| "hyphenate (c # cs) =
     (if isSlugChar c then c # hyphenate cs
      else CHR ''-'' # hyphenate (dropWhile (\<lambda>x. \<not> isSlugChar x) cs))"
  by pat_completeness auto
termination
  by (relation "measure length") (auto simp: le_imp_less_Suc length_dropWhile_le)

definition stripEdgeHyphens :: "string \<Rightarrow> string" where
  \<comment> \<open>\<open>s.replace(/(^-|-$)/g, '')\<close>: a hyphen at the start and a hyphen at the end.\<close>
  "stripEdgeHyphens s =
     (let s1 = (case s of [] \<Rightarrow> [] | c # cs \<Rightarrow> if c = CHR ''-'' then cs else s)
      in if s1 \<noteq> [] \<and> last s1 = CHR ''-'' then butlast s1 else s1)"

definition slugify :: "string \<Rightarrow> string \<Rightarrow> string" where
  \<comment> \<open>\<open>slugify(title, episode)\<close>; a call without the second argument passes \<open>undefined\<close>,
      which is falsy like the empty string.\<close>
  "slugify ttl epi =
     (if epi \<noteq> [] then epi else stripEdgeHyphens (hyphenate (toLowerCase ttl)))"

definition episodeFileName :: "episode \<Rightarrow> string" where
  \<comment> \<open>The name \<open>build\<close> writes the page of an episode under, in the directory \<open>episodes\<close>:
      \<open>${ep.episode || slugify(ep.title)}.html\<close>.\<close>
  "episodeFileName ep =
     (if episode ep \<noteq> [] then episode ep else slugify (title ep) []) @ ''.html''"

definition buildEpisodePages :: "runtime \<Rightarrow> episode list \<Rightarrow> (string \<times> string) list" where
  \<comment> \<open>The loop of \<open>build\<close> over the sorted collection: the file names and the pages written.\<close>
  "buildEpisodePages rt episodes =
     map (\<lambda>ep. (episodeFileName ep, generateEpisodePage rt ep episodes episodes)) episodes"

definition exampleDistinct :: "episode list" where
  \<comment> \<open>A sorted collection of three episodes with different numbers.\<close>
  "exampleDistinct =
     [exampleEpisode ''3'' ''c'' (Some 30), exampleEpisode ''2'' ''b'' (Some 20),
      exampleEpisode ''1'' ''a'' (Some 10)]"

definition exampleUnnumbered :: "episode list" where
  \<comment> \<open>A sorted collection of three episodes with different numbers, the last one without a
      number: \<open>parseInt('')\<close> is \<open>NaN\<close>, which the comparator reads as 0.\<close>
  "exampleUnnumbered =
     [exampleEpisode ''2'' ''b'' (Some 20), exampleEpisode ''1'' ''a'' (Some 10),
      exampleEpisode [] ''Bonus Q&A'' (Some 5)]"

definition exampleMeta :: podcastMeta where
  "exampleMeta =
     \<lparr> podcastTitle = ''Survivor Science'', podcastDescription = ''Stroke recovery.'',
       podcastAuthor = ''Will Schmierer'', podcastImage = [], podcastLink = [] \<rparr>"

section \<open>Properties of the text utilities\<close>

lemma replaceChar_append: "replaceChar c rep (xs @ ys) = replaceChar c rep xs @ replaceChar c rep ys"
  by (simp add: replaceChar_def)

lemma replaceChar_Nil: "replaceChar c rep [] = []"
  by (simp add: replaceChar_def)

lemma replaceChar_Cons:
  "replaceChar c rep (x # xs) = (if x = c then rep else [x]) @ replaceChar c rep xs"
  by (simp add: replaceChar_def)

lemma escapeHtml_Nil: "escapeHtml [] = []"
  by (simp add: escapeHtml_def replaceChar_Nil)

lemma escapeHtml_Cons: "escapeHtml (c # cs) = escapeChar c @ escapeHtml cs"
  by (simp add: escapeHtml_def escapeChar_def replaceChar_Cons replaceChar_append replaceChar_Nil)

lemma escapeHtml_concat: "escapeHtml s = concat (map escapeChar s)"
  by (induction s) (simp_all add: escapeHtml_Nil escapeHtml_Cons)

lemma escapeHtml_append: "escapeHtml (xs @ ys) = escapeHtml xs @ escapeHtml ys"
  by (simp add: escapeHtml_concat)

lemma escapeChar_no_markup:
  \<open>CHR ''<'' \<notin> set (escapeChar c) \<and> CHR ''>'' \<notin> set (escapeChar c) \<and> CHR ''"'' \<notin> set (escapeChar c)\<close>
  by (simp add: escapeChar_def)

lemma escapeChar_quote_count:
  "length (filter (\<lambda>x. x = CHR 0x27) (escapeChar c)) = (if c = CHR 0x27 then 1 else 0)"
  by (simp add: escapeChar_def)

text \<open>
  C9. For every input string, the output of \<open>escapeHtml\<close> contains none of the characters
  \<open><\<close>, \<open>>\<close> and \<open>"\<close>: each occurrence is replaced by its entity, the ampersand first, so that
  the output is the concatenation of the per-character escapes (the ampersands of the
  entities are not escaped again). A single quote (code unit 0x27) is not escaped: it is its
  own escape, and the output holds exactly as many single quotes as the input.
\<close>

theorem escapeHtml_removes_markup_keeps_single_quote:
  \<open>CHR ''<'' \<notin> set (escapeHtml s) \<and> CHR ''>'' \<notin> set (escapeHtml s)
   \<and> CHR ''"'' \<notin> set (escapeHtml s)
   \<and> escapeHtml s = concat (map escapeChar s)
   \<and> escapeChar (CHR 0x27) = [CHR 0x27]
   \<and> escapeHtml (xs @ [CHR 0x27] @ ys) = escapeHtml xs @ [CHR 0x27] @ escapeHtml ys
   \<and> length (filter (\<lambda>x. x = CHR 0x27) (escapeHtml s)) = length (filter (\<lambda>x. x = CHR 0x27) s)\<close>
proof -
  have no_markup: \<open>CHR ''<'' \<notin> set (escapeHtml t) \<and> CHR ''>'' \<notin> set (escapeHtml t)
      \<and> CHR ''"'' \<notin> set (escapeHtml t)\<close> for t
    using escapeChar_no_markup by (induction t) (auto simp: escapeHtml_Nil escapeHtml_Cons)
  have quote_own: "escapeChar (CHR 0x27) = [CHR 0x27]"
    by (simp add: escapeChar_def)
  have quote_mid: "escapeHtml (xs @ [CHR 0x27] @ ys) = escapeHtml xs @ [CHR 0x27] @ escapeHtml ys"
    by (simp add: escapeHtml_append escapeHtml_Cons quote_own)
  have quote_count: "length (filter (\<lambda>x. x = CHR 0x27) (escapeHtml t)) = length (filter (\<lambda>x. x = CHR 0x27) t)" for t
    by (induction t) (simp_all add: escapeHtml_Nil escapeHtml_Cons escapeChar_quote_count)
  show ?thesis
    using no_markup [of s] quote_own quote_mid quote_count [of s] escapeHtml_concat [of s]
    by blast
qed

section \<open>Duration formatting\<close>

text \<open>
  C2. A raw duration that is not a number of seconds is meant to pass through unchanged
  (the source's comment on that branch: already formatted as HH:MM:SS). \<open>parseInt\<close> reads
  the leading digits of such a value as seconds, so the raw value \<open>45 min\<close> is rendered as
  \<open>0 min\<close> and not returned unchanged; so is \<open>01:02:03\<close>. The raw value \<open>3725\<close> is rendered
  as \<open>1h 2m\<close>.
\<close>

theorem formatDuration_reads_numeric_prefix:
  "formatDuration ''45 min'' = ''0 min''
   \<and> formatDuration ''45 min'' \<noteq> ''45 min''
   \<and> parseInt ''45 min'' (Some 10) = Some 45
   \<and> formatDuration ''01:02:03'' = ''0 min''
   \<and> formatDuration ''3725'' = ''1h 2m''"
  by code_simp

section \<open>Truncation\<close>

lemma cutLastWord_length: "length (cutLastWord s) \<le> length s"
  by (induction s) auto

lemma cutLastWord_no_space: "list_all (\<lambda>x. \<not> isSpace x) s \<Longrightarrow> cutLastWord s = s"
  by (induction s) auto

lemma cutLastWord_boundary:
  "\<not> list_all (\<lambda>x. \<not> isSpace x) s \<Longrightarrow>
     (\<exists>w rest. isSpace w \<and> s = cutLastWord s @ w # rest)
     \<and> (cutLastWord s = [] \<or> \<not> isSpace (last (cutLastWord s)))"
proof (induction s)
  case Nil
  then show ?case by simp
next
  case (Cons c cs)
  show ?case
  proof (cases "isSpace c \<and> list_all (\<lambda>x. \<not> isSpace x) (dropWhile isSpace cs)")
    case True
    then show ?thesis by auto
  next
    case False
    then have cut: "cutLastWord (c # cs) = c # cutLastWord cs" by simp
    have sp: "\<not> list_all (\<lambda>x. \<not> isSpace x) cs"
    proof (cases "isSpace c")
      case True
      with False have "\<not> list_all (\<lambda>x. \<not> isSpace x) (dropWhile isSpace cs)" by simp
      then show ?thesis
        by (auto simp: list_all_iff dest: set_dropWhileD)
    next
      case False
      with Cons.prems show ?thesis by simp
    qed
    from Cons.IH [OF sp] obtain w rest where w: "isSpace w" "cs = cutLastWord cs @ w # rest"
      and l: "cutLastWord cs = [] \<or> \<not> isSpace (last (cutLastWord cs))" by blast
    have "\<not> isSpace (last (c # cutLastWord cs))"
    proof (cases "cutLastWord cs = []")
      case True
      from sp have "cs \<noteq> []" by auto
      then obtain d ds where cs: "cs = d # ds" by (cases cs) auto
      with True have d: "isSpace d \<and> list_all (\<lambda>x. \<not> isSpace x) (dropWhile isSpace ds)"
        by (auto split: if_splits)
      with cs False have "\<not> isSpace c" by auto
      with True show ?thesis by simp
    next
      case False
      with l show ?thesis by simp
    qed
    moreover from w have "isSpace w \<and> c # cs = (c # cutLastWord cs) @ w # rest" by simp
    ultimately show ?thesis unfolding cut by blast
  qed
qed

lemma cleanDescription_length: "length (cleanDescription s) \<le> length s"
proof -
  have "length (dropWhile isSpace (drop k s)) \<le> length s" for k
    using length_dropWhile_le [of isSpace "drop k s"] by simp
  then show ?thesis by (simp add: cleanDescription_def)
qed

lemma truncate_short:
  "length (cleanDescription (stripHtml t)) \<le> n \<Longrightarrow> truncate t n = cleanDescription (stripHtml t)"
  by (simp add: truncate_def)

lemma truncate_long:
  "n < length (cleanDescription (stripHtml t)) \<Longrightarrow>
     truncate t n = cutLastWord (take n (cleanDescription (stripHtml t))) @ ''...''"
  by (simp add: truncate_def)

lemma truncate_length: "length (truncate t n) \<le> n + 3"
proof -
  have "length (cutLastWord (take n p)) \<le> n" for p :: string
    using cutLastWord_length [of "take n p"] by simp
  then show ?thesis
    by (auto simp: truncate_def Let_def intro: le_trans)
qed

lemma truncate_at_boundary:
  assumes long: "n < length plain"
    and sp: "\<not> list_all (\<lambda>x. \<not> isSpace x) (take n plain)"
  shows "\<exists>kept w rest. cutLastWord (take n plain) = kept \<and> plain = kept @ w # rest \<and> isSpace w
           \<and> (kept = [] \<or> \<not> isSpace (last kept)) \<and> \<not> cutsMidWord plain kept"
proof -
  from cutLastWord_boundary [OF sp] obtain w rest
    where w: "isSpace w" and split: "take n plain = cutLastWord (take n plain) @ w # rest"
      and l: "cutLastWord (take n plain) = [] \<or> \<not> isSpace (last (cutLastWord (take n plain)))"
    by blast
  let ?kept = "cutLastWord (take n plain)"
  have "plain = take n plain @ drop n plain" by simp
  with split have whole: "plain = ?kept @ w # (rest @ drop n plain)"
    by (metis append.assoc append_Cons)
  then have "plain ! length ?kept = w"
    by (metis nth_append_length)
  with w have "\<not> cutsMidWord plain ?kept" by (simp add: cutsMidWord_def)
  with w whole l show ?thesis by blast
qed

text \<open>
  C4, as the code has it. With \<open>plain\<close> the text after markup and the promotional prefix
  are stripped: the output is at most \<open>n\<close> plus the three characters of the ellipsis long;
  when the markup-stripped text (or \<open>plain\<close>) is at most \<open>n\<close> long the output is \<open>plain\<close>
  unchanged; when \<open>plain\<close> is longer and its first \<open>n\<close> characters hold white space, the
  output is a prefix of \<open>plain\<close> that is empty or ends with a word character and is followed in
  \<open>plain\<close> by white space, then the ellipsis: no word is split; when the first \<open>n\<close> characters
  hold no white space, the output is exactly these \<open>n\<close> characters and the ellipsis.
\<close>

theorem truncate_law:
  "length (truncate t n) \<le> n + length ''...''
   \<and> (length (stripHtml t) \<le> n \<longrightarrow> truncate t n = cleanDescription (stripHtml t))
   \<and> (length (cleanDescription (stripHtml t)) \<le> n \<longrightarrow>
        truncate t n = cleanDescription (stripHtml t))
   \<and> (n < length (cleanDescription (stripHtml t))
        \<and> \<not> list_all (\<lambda>x. \<not> isSpace x) (take n (cleanDescription (stripHtml t))) \<longrightarrow>
        (\<exists>kept w rest. truncate t n = kept @ ''...''
           \<and> cleanDescription (stripHtml t) = kept @ w # rest \<and> isSpace w
           \<and> (kept = [] \<or> \<not> isSpace (last kept))
           \<and> \<not> cutsMidWord (cleanDescription (stripHtml t)) kept))
   \<and> (n < length (cleanDescription (stripHtml t))
        \<and> list_all (\<lambda>x. \<not> isSpace x) (take n (cleanDescription (stripHtml t))) \<longrightarrow>
        truncate t n = take n (cleanDescription (stripHtml t)) @ ''...'')"
proof -
  let ?plain = "cleanDescription (stripHtml t)"
  have len: "length (truncate t n) \<le> n + length ''...''"
    using truncate_length [of t n] by simp
  have short1: "length (stripHtml t) \<le> n \<longrightarrow> truncate t n = ?plain"
    using cleanDescription_length [of "stripHtml t"] truncate_short [of t n] by simp
  have short2: "length ?plain \<le> n \<longrightarrow> truncate t n = ?plain"
    using truncate_short [of t n] by simp
  have cut: "n < length ?plain \<and> \<not> list_all (\<lambda>x. \<not> isSpace x) (take n ?plain) \<longrightarrow>
        (\<exists>kept w rest. truncate t n = kept @ ''...'' \<and> ?plain = kept @ w # rest \<and> isSpace w
           \<and> (kept = [] \<or> \<not> isSpace (last kept)) \<and> \<not> cutsMidWord ?plain kept)"
  proof
    assume a: "n < length ?plain \<and> \<not> list_all (\<lambda>x. \<not> isSpace x) (take n ?plain)"
    then have long: "n < length ?plain" and sp: "\<not> list_all (\<lambda>x. \<not> isSpace x) (take n ?plain)"
      by simp_all
    from truncate_at_boundary [OF long sp] truncate_long [OF long]
    show "\<exists>kept w rest. truncate t n = kept @ ''...'' \<and> ?plain = kept @ w # rest \<and> isSpace w
           \<and> (kept = [] \<or> \<not> isSpace (last kept)) \<and> \<not> cutsMidWord ?plain kept"
      by metis
  qed
  have hard: "n < length ?plain \<and> list_all (\<lambda>x. \<not> isSpace x) (take n ?plain) \<longrightarrow>
        truncate t n = take n ?plain @ ''...''"
    using truncate_long [of n t] cutLastWord_no_space [of "take n ?plain"] by simp
  from len short1 short2 cut hard show ?thesis by blast
qed

theorem truncate_law_witness:
  "length (truncate ''one two three four'' 9) \<le> 9 + length ''...''
   \<and> truncate ''<b>one</b> two'' 9 = ''one two''
   \<and> (\<exists>kept w rest. truncate ''one two three four'' 9 = kept @ ''...''
         \<and> cleanDescription (stripHtml ''one two three four'') = kept @ w # rest \<and> isSpace w
         \<and> (kept = [] \<or> \<not> isSpace (last kept))
         \<and> \<not> cutsMidWord (cleanDescription (stripHtml ''one two three four'')) kept)
   \<and> truncate ''abcdefghij'' 5 = take 5 (cleanDescription (stripHtml ''abcdefghij'')) @ ''...''"
proof -
  have short: "length (stripHtml ''<b>one</b> two'') \<le> 9"
    by code_simp
  have plain: "cleanDescription (stripHtml ''<b>one</b> two'') = ''one two''"
    by code_simp
  have sp: "9 < length (cleanDescription (stripHtml ''one two three four''))
      \<and> \<not> list_all (\<lambda>x. \<not> isSpace x) (take 9 (cleanDescription (stripHtml ''one two three four'')))"
    by code_simp
  have nosp: "5 < length (cleanDescription (stripHtml ''abcdefghij''))
      \<and> list_all (\<lambda>x. \<not> isSpace x) (take 5 (cleanDescription (stripHtml ''abcdefghij'')))"
    by code_simp
  show ?thesis
    using truncate_law [of "''one two three four''" 9] truncate_law [of "''<b>one</b> two''" 9]
      truncate_law [of "''abcdefghij''" 5] short plain sp nosp
    by presburger
qed

theorem truncate_splits_word_counterexample:
  "\<not> (\<forall>t n kept. n < length (cleanDescription (stripHtml t)) \<and> truncate t n = kept @ ''...''
         \<longrightarrow> \<not> cutsMidWord (cleanDescription (stripHtml t)) kept)"
proof -
  have "5 < length (cleanDescription (stripHtml ''abcdefghij''))
      \<and> truncate ''abcdefghij'' 5 = ''abcde'' @ ''...''
      \<and> cutsMidWord (cleanDescription (stripHtml ''abcdefghij'')) ''abcde''"
    by code_simp
  then show ?thesis by blast
qed

section \<open>Properties of the XML extraction\<close>


lemma litPrefix_Nil: "litPrefix eq p [] = (p = [])"
  by (cases p) simp_all

lemma splitAtFirst_None_iff: "splitAtFirst eq p s = None \<longleftrightarrow> \<not> occursIn eq p s"
  by (induction s) (auto simp: litPrefix_Nil split: option.splits)

lemma occursIn_drop: "\<not> occursIn eq p s \<Longrightarrow> \<not> occursIn eq p (drop k s)"
proof (induction s arbitrary: k)
  case Nil
  then show ?case by simp
next
  case (Cons c cs)
  then show ?case by (cases k) auto
qed

lemma occursIn_first_char: "occursIn eq (p # ps) s \<Longrightarrow> \<exists>c\<in>set s. eq p c"
  by (induction s) auto

lemma ciEq_lt: "ciEq (CHR ''<'') c \<Longrightarrow> c = CHR ''<''"
  by (simp add: ciEq_def upperAscii_def split: if_splits)

lemma no_tag_without_lt: "CHR ''<'' \<notin> set s \<Longrightarrow> \<not> occursIn ciEq (CHR ''<'' # tag) s"
  using occursIn_first_char [of ciEq "CHR ''<''" tag s] ciEq_lt by blast


lemma firstMatch_absent:
  assumes m: "\<And>u. \<not> litPrefix eq pat u \<Longrightarrow> m u = None"
  shows "\<not> occursIn eq pat s \<Longrightarrow> firstMatch m s = None"
  by (induction s) (auto simp: m)

lemma getTagContent_absent: "\<not> occursIn ciEq (CHR ''<'' # tag) xml \<Longrightarrow> getTagContent xml tag = []"
proof -
  assume a: "\<not> occursIn ciEq (CHR ''<'' # tag) xml"
  have "firstMatch (tagMatchHere tag) xml = None"
    by (rule firstMatch_absent [OF _ a]) (simp add: tagMatchHere_def)
  then show ?thesis by (simp add: getTagContent_def)
qed

lemma getAttr_absent: "\<not> occursIn ciEq (CHR ''<'' # tag) xml \<Longrightarrow> getAttr xml tag attr = []"
proof -
  assume a: "\<not> occursIn ciEq (CHR ''<'' # tag) xml"
  have "firstMatch (attrMatchHere tag attr) xml = None"
    by (rule firstMatch_absent [OF _ a]) (simp add: attrMatchHere_def)
  then show ?thesis by (simp add: getAttr_def)
qed

lemma getCDATA_empty: "getCDATA [] = []"
  by (simp add: getCDATA_def cdataMatchHere_def delimitedHere_def trim_def)

lemma tagMatchHere_alt:
  "tagMatchHere tag s =
     (let r = dropWhile (\<lambda>c. c \<noteq> CHR ''>'') (drop (Suc (length tag)) s)
      in if litPrefix ciEq (CHR ''<'' # tag) s \<and> r \<noteq> []
         then map_option fst (splitAtFirst ciEq (''</'' @ tag @ ''>'') (tl r))
         else None)"
  by (cases "dropWhile (\<lambda>c. c \<noteq> CHR ''>'') (drop (Suc (length tag)) s)")
    (auto simp: tagMatchHere_def Let_def split: option.splits simp del: dropWhile_eq_Nil_conv)

lemma tl_dropWhile_is_drop: "\<exists>n. tl (dropWhile P xs) = drop n xs"
proof -
  have "tl (dropWhile P xs) = tl (drop (length (takeWhile P xs)) xs)"
    by (simp only: dropWhile_eq_drop)
  also have "\<dots> = drop (Suc (length (takeWhile P xs))) xs"
    by (simp add: drop_Suc tl_drop)
  finally show ?thesis by blast
qed

lemma closedOff_tail:
  assumes "dropWhile P r = [] \<or> \<not> occursIn eq pat (tl (dropWhile P r))"
  shows "dropWhile P (drop 1 r) = [] \<or> \<not> occursIn eq pat (tl (dropWhile P (drop 1 r)))"
proof (cases r)
  case Nil
  then show ?thesis by simp
next
  case (Cons x r')
  show ?thesis
  proof (cases "P x")
    case True
    with assms Cons show ?thesis by (simp del: dropWhile_eq_Nil_conv)
  next
    case False
    with assms Cons have no: "\<not> occursIn eq pat r'" by simp
    obtain n where "tl (dropWhile P r') = drop n r'"
      using tl_dropWhile_is_drop [of P r'] by blast
    with occursIn_drop [OF no, of n] have "\<not> occursIn eq pat (tl (dropWhile P r'))" by simp
    with Cons show ?thesis by simp
  qed
qed

lemma tagClosedOff_no_match: "tagClosedOff tag s \<Longrightarrow> tagMatchHere tag s = None"
proof -
  assume a: "tagClosedOff tag s"
  let ?r = "dropWhile (\<lambda>c. c \<noteq> CHR ''>'') (drop (Suc (length tag)) s)"
  show ?thesis
  proof (cases "?r = []")
    case True
    then show ?thesis by (simp only: tagMatchHere_alt Let_def) simp
  next
    case False
    with a have "\<not> occursIn ciEq (''</'' @ tag @ ''>'') (tl ?r)"
      by (simp only: tagClosedOff_def Let_def) blast
    then have "splitAtFirst ciEq (''</'' @ tag @ ''>'') (tl ?r) = None"
      by (rule iffD2 [OF splitAtFirst_None_iff])
    then show ?thesis by (simp only: tagMatchHere_alt Let_def) simp
  qed
qed

lemma tagClosedOff_tail: "tagClosedOff tag (c # cs) \<Longrightarrow> tagClosedOff tag cs"
proof -
  define r where "r = drop (Suc (length tag)) (c # cs)"
  have r': "drop (Suc (length tag)) cs = drop 1 r"
    by (simp add: r_def)
  assume "tagClosedOff tag (c # cs)"
  then have "dropWhile (\<lambda>c. c \<noteq> CHR ''>'') r = []
      \<or> \<not> occursIn ciEq (''</'' @ tag @ ''>'') (tl (dropWhile (\<lambda>c. c \<noteq> CHR ''>'') r))"
    by (simp only: tagClosedOff_def Let_def r_def)
  then have "dropWhile (\<lambda>c. c \<noteq> CHR ''>'') (drop 1 r) = []
      \<or> \<not> occursIn ciEq (''</'' @ tag @ ''>'') (tl (dropWhile (\<lambda>c. c \<noteq> CHR ''>'') (drop 1 r)))"
    by (rule closedOff_tail)
  then show ?thesis by (simp only: tagClosedOff_def Let_def r')
qed

lemma tagClosedOff_firstMatch: "tagClosedOff tag s \<Longrightarrow> firstMatch (tagMatchHere tag) s = None"
proof (induction s)
  case Nil
  then show ?case by (simp add: tagClosedOff_no_match)
next
  case (Cons c cs)
  from Cons.prems have "tagMatchHere tag (c # cs) = None" by (rule tagClosedOff_no_match)
  moreover from Cons.prems have "tagClosedOff tag cs" by (rule tagClosedOff_tail)
  then have "firstMatch (tagMatchHere tag) cs = None" by (rule Cons.IH)
  ultimately show ?case by simp
qed

lemma tagMatchHere_None_closedOff:
  assumes p: "litPrefix ciEq (CHR ''<'' # tag) s" and n: "tagMatchHere tag s = None"
  shows "tagClosedOff tag s"
proof -
  let ?r = "dropWhile (\<lambda>c. c \<noteq> CHR ''>'') (drop (Suc (length tag)) s)"
  show ?thesis
  proof (cases "?r = []")
    case True
    then show ?thesis by (simp only: tagClosedOff_def Let_def) simp
  next
    case False
    with p n have "map_option fst (splitAtFirst ciEq (''</'' @ tag @ ''>'') (tl ?r)) = None"
      by (simp only: tagMatchHere_alt Let_def) simp
    then have "splitAtFirst ciEq (''</'' @ tag @ ''>'') (tl ?r) = None"
      by simp
    then have "\<not> occursIn ciEq (''</'' @ tag @ ''>'') (tl ?r)"
      by (rule iffD1 [OF splitAtFirst_None_iff])
    then show ?thesis by (simp only: tagClosedOff_def Let_def) simp
  qed
qed

lemma litPrefix_ciEq_self: "litPrefix ciEq p (p @ r)"
  by (induction p) (simp_all add: ciEq_def)

lemma firstMatch_tag:
  "firstMatch (tagMatchHere tag) s =
     (case splitAtFirst ciEq (CHR ''<'' # tag) s of
        None \<Rightarrow> None
      | Some (pre, r) \<Rightarrow> tagMatchHere tag ((CHR ''<'' # tag) @ r))"
proof (induction s)
  case Nil
  then show ?case by (simp add: tagMatchHere_def)
next
  case (Cons c cs)
  show ?case
  proof (cases "litPrefix ciEq (CHR ''<'' # tag) (c # cs)")
    case True
    then have split: "splitAtFirst ciEq (CHR ''<'' # tag) (c # cs)
        = Some ([], drop (length (CHR ''<'' # tag)) (c # cs))"
      by (simp only: splitAtFirst.simps if_True)
    have same: "tagMatchHere tag ((CHR ''<'' # tag) @ drop (length (CHR ''<'' # tag)) (c # cs))
        = tagMatchHere tag (c # cs)"
    proof -
      let ?rest = "drop (length (CHR ''<'' # tag)) (c # cs)"
      have a: "litPrefix ciEq (CHR ''<'' # tag) ((CHR ''<'' # tag) @ ?rest)"
        by (rule litPrefix_ciEq_self)
      have b: "drop (Suc (length tag)) ((CHR ''<'' # tag) @ ?rest) = drop (Suc (length tag)) (c # cs)"
        by simp
      show ?thesis
        by (simp only: tagMatchHere_def a True if_True b)
    qed
    have "firstMatch (tagMatchHere tag) (c # cs) = tagMatchHere tag (c # cs)"
    proof (cases "tagMatchHere tag (c # cs)")
      case None
      from tagMatchHere_None_closedOff [OF True None] have "tagClosedOff tag cs"
        by (rule tagClosedOff_tail)
      then have "firstMatch (tagMatchHere tag) cs = None" by (rule tagClosedOff_firstMatch)
      with None show ?thesis by simp
    next
      case (Some content)
      then show ?thesis by simp
    qed
    then show ?thesis by (simp only: split option.case prod.case same)
  next
    case False
    then have "tagMatchHere tag (c # cs) = None" by (simp only: tagMatchHere_def if_False)
    then have "firstMatch (tagMatchHere tag) (c # cs) = firstMatch (tagMatchHere tag) cs"
      by simp
    moreover have "splitAtFirst ciEq (CHR ''<'' # tag) (c # cs) =
        (case splitAtFirst ciEq (CHR ''<'' # tag) cs of
           Some (before, after) \<Rightarrow> Some (c # before, after)
         | None \<Rightarrow> None)"
      using False by (simp only: splitAtFirst.simps if_False)
    ultimately show ?thesis using Cons.IH by (simp split: option.splits)
  qed
qed


lemma getTagContent_first_tag:
  assumes op: "splitAtFirst ciEq (CHR ''<'' # tag) xml = Some (pre, r)"
    and gt: "dropWhile (\<lambda>c. c \<noteq> CHR ''>'') r = g # body"
    and cl: "splitAtFirst ciEq (''</'' @ tag @ ''>'') body = Some (content, after)"
  shows "getTagContent xml tag = trim content"
proof -
  have a: "litPrefix ciEq (CHR ''<'' # tag) ((CHR ''<'' # tag) @ r)"
    by (rule litPrefix_ciEq_self)
  have b: "drop (Suc (length tag)) ((CHR ''<'' # tag) @ r) = r"
    by simp
  have "tagMatchHere tag ((CHR ''<'' # tag) @ r) = Some content"
    by (simp only: tagMatchHere_def a if_True b gt list.case cl option.case prod.case)
  with op have "firstMatch (tagMatchHere tag) xml = Some content"
    by (simp only: firstMatch_tag option.case prod.case)
  then show ?thesis by (simp add: getTagContent_def)
qed

lemma no_close_closedOff:
  assumes "\<not> occursIn ciEq (''</'' @ tag @ ''>'') s"
  shows "tagClosedOff tag s"
proof -
  let ?d = "drop (Suc (length tag)) s"
  obtain n where n: "tl (dropWhile (\<lambda>c. c \<noteq> CHR ''>'') ?d) = drop n ?d"
    using tl_dropWhile_is_drop [of "\<lambda>c. c \<noteq> CHR ''>''" ?d] by blast
  from assms have "\<not> occursIn ciEq (''</'' @ tag @ ''>'') ?d"
    by (rule occursIn_drop)
  then have "\<not> occursIn ciEq (''</'' @ tag @ ''>'') (drop n ?d)"
    by (rule occursIn_drop)
  with n show ?thesis
    by (simp only: tagClosedOff_def Let_def) simp
qed

lemma getTagContent_no_close:
  "\<not> occursIn ciEq (''</'' @ tag @ ''>'') xml \<Longrightarrow> getTagContent xml tag = []"
  using tagClosedOff_firstMatch [OF no_close_closedOff] by (simp add: getTagContent_def)

lemma getTagContent_lacks: "lacksElement tag xml \<Longrightarrow> getTagContent xml tag = []"
  unfolding lacksElement_def using getTagContent_absent getTagContent_no_close by blast

lemma litPrefix_occursIn: "litPrefix eq p s \<Longrightarrow> occursIn eq p s"
  by (cases s) simp_all

lemma occursIn_of_drop: "occursIn eq p (drop k s) \<Longrightarrow> occursIn eq p s"
  using occursIn_drop by blast

lemma firstMatch_needs:
  assumes m: "\<And>u. m u \<noteq> None \<Longrightarrow> occursIn eq pat u"
  shows "\<not> occursIn eq pat s \<Longrightarrow> firstMatch m s = None"
proof (induction s)
  case Nil
  from Nil m [of "[]"] have "m [] = None" by blast
  then show ?case by simp
next
  case (Cons c cs)
  from Cons.prems m [of "c # cs"] have "m (c # cs) = None" by blast
  moreover from Cons.prems have "\<not> occursIn eq pat cs" by simp
  then have "firstMatch m cs = None" by (rule Cons.IH)
  ultimately show ?case by simp
qed

lemma attrValueHere_needs:
  "attrValueHere attr s \<noteq> None \<Longrightarrow> occursIn ciEq (attr @ ''='') s"
proof (cases s)
  case Nil
  assume "attrValueHere attr s \<noteq> None"
  with Nil show ?thesis by (simp add: attrValueHere_def)
next
  case (Cons w r)
  assume "attrValueHere attr s \<noteq> None"
  with Cons have "litPrefix ciEq (attr @ ''='') r"
    by (simp add: attrValueHere_def split: if_splits)
  then have "occursIn ciEq (attr @ ''='') r" by (rule litPrefix_occursIn)
  with Cons show ?thesis by simp
qed

lemma attrBacktrack_needs:
  "attrBacktrack attr s k \<noteq> None \<Longrightarrow> occursIn ciEq (attr @ ''='') s"
proof (induction k)
  case 0
  then show ?case by (simp add: attrValueHere_needs)
next
  case (Suc k)
  show ?case
  proof (cases "attrValueHere attr (drop (Suc k) s)")
    case None
    with Suc.prems have "attrBacktrack attr s k \<noteq> None" by simp
    then show ?thesis by (rule Suc.IH)
  next
    case (Some v)
    then have "occursIn ciEq (attr @ ''='') (drop (Suc k) s)"
      using attrValueHere_needs [of attr "drop (Suc k) s"] by simp
    then show ?thesis by (rule occursIn_of_drop)
  qed
qed

lemma attrMatchHere_needs:
  "attrMatchHere tag attr s \<noteq> None \<Longrightarrow> occursIn ciEq (attr @ ''='') s"
proof -
  assume "attrMatchHere tag attr s \<noteq> None"
  then have "\<exists>k. attrBacktrack attr (drop (Suc (length tag)) s) k \<noteq> None"
    by (auto simp: attrMatchHere_def Let_def split: if_splits)
  then obtain k where "attrBacktrack attr (drop (Suc (length tag)) s) k \<noteq> None" by blast
  then have "occursIn ciEq (attr @ ''='') (drop (Suc (length tag)) s)"
    by (rule attrBacktrack_needs)
  then show ?thesis by (rule occursIn_of_drop)
qed

lemma getAttr_no_attribute:
  "\<not> occursIn ciEq (attr @ ''='') xml \<Longrightarrow> getAttr xml tag attr = []"
proof -
  assume a: "\<not> occursIn ciEq (attr @ ''='') xml"
  have "firstMatch (attrMatchHere tag attr) xml = None"
    by (rule firstMatch_needs [OF _ a]) (rule attrMatchHere_needs)
  then show ?thesis by (simp add: getAttr_def)
qed

lemma getAttr_lacks: "lacksAttribute tag attr xml \<Longrightarrow> getAttr xml tag attr = []"
  unfolding lacksAttribute_def using getAttr_absent getAttr_no_attribute by blast










section \<open>Properties of the episode normalisation\<close>

lemma formatDuration_empty: "formatDuration [] = []"
  by (simp add: formatDuration_def parseInt_def stripSign_def Let_def)

lemma episodesId_empty: "episodesIdHere [] = None"
  by (simp add: episodesIdHere_def)

lemma isDigit_dot: "\<not> isDigit (CHR ''.'')"
  by (simp add: isDigit_def)

lemma takeWhile_digits:
  "list_all isDigit ds \<Longrightarrow> takeWhile isDigit (ds @ CHR ''.'' # rest) = ds"
  by (induction ds) (simp_all add: isDigit_dot)

lemma leadingNumber_prefix:
  "ds \<noteq> [] \<Longrightarrow> list_all isDigit ds \<Longrightarrow> leadingNumber (ds @ ''.'' @ rest) = Some ds"
  by (simp add: leadingNumber_def takeWhile_digits)

lemma stripLeadingNumber_prefix:
  "ds \<noteq> [] \<Longrightarrow> list_all isDigit ds \<Longrightarrow>
     stripLeadingNumber (ds @ ''.'' @ rest) = dropWhile isSpace rest"
  using leadingNumber_prefix [of ds rest] by (simp add: stripLeadingNumber_def)

lemma leadingNumber_Some:
  "leadingNumber t = Some ds \<Longrightarrow>
     ds \<noteq> [] \<and> list_all isDigit ds \<and> t = ds @ ''.'' @ drop (Suc (length ds)) t"
proof -
  assume a: "leadingNumber t = Some ds"
  then have ds: "ds = takeWhile isDigit t" and ne: "ds \<noteq> []"
    and dot: "litPrefix (=) ''.'' (drop (length ds) t)"
    by (auto simp: leadingNumber_def Let_def split: if_splits)
  from dot obtain r where r: "drop (length ds) t = CHR ''.'' # r"
    by (cases "drop (length ds) t") auto
  then have r': "r = drop (Suc (length ds)) t"
    by (metis drop_Suc tl_drop list.sel(3))
  have "t = take (length ds) t @ drop (length ds) t" by simp
  also have "take (length ds) t = ds"
    unfolding ds by (metis takeWhile_eq_take)
  finally have "t = ds @ CHR ''.'' # r" using r by simp
  moreover have "list_all isDigit ds"
    unfolding ds by (auto simp: list_all_iff dest: set_takeWhileD)
  ultimately show ?thesis using ne r' by simp
qed

lemma leadingNumber_None_iff:
  "leadingNumber t = None \<longleftrightarrow>
     \<not> (\<exists>ds rest. ds \<noteq> [] \<and> list_all isDigit ds \<and> t = ds @ ''.'' @ rest)"
proof
  assume n: "leadingNumber t = None"
  show "\<not> (\<exists>ds rest. ds \<noteq> [] \<and> list_all isDigit ds \<and> t = ds @ ''.'' @ rest)"
  proof
    assume "\<exists>ds rest. ds \<noteq> [] \<and> list_all isDigit ds \<and> t = ds @ ''.'' @ rest"
    then obtain ds rest where "ds \<noteq> []" "list_all isDigit ds" "t = ds @ ''.'' @ rest" by blast
    with leadingNumber_prefix [of ds rest] n show False by simp
  qed
next
  assume a: "\<not> (\<exists>ds rest. ds \<noteq> [] \<and> list_all isDigit ds \<and> t = ds @ ''.'' @ rest)"
  show "leadingNumber t = None"
  proof (cases "leadingNumber t")
    case None
    then show ?thesis .
  next
    case (Some ds)
    from leadingNumber_Some [OF Some] a show ?thesis by blast
  qed
qed

lemma parseEpisode_episode:
  "episode (parseEpisode rt x) =
     (if getTagContent x ''itunes:episode'' = [] then
        (case leadingNumber (getCDATA (getTagContent x ''title'')) of
           Some g \<Rightarrow> g | None \<Rightarrow> [])
      else getTagContent x ''itunes:episode'')"
  by (simp add: parseEpisode_def Let_def split: option.splits)

lemma parseEpisode_title:
  "title (parseEpisode rt x) = stripLeadingNumber (getCDATA (getTagContent x ''title''))"
  by (simp add: parseEpisode_def Let_def)

lemma parseEpisode_fullTitle:
  "fullTitle (parseEpisode rt x) = getCDATA (getTagContent x ''title'')"
  by (simp add: parseEpisode_def Let_def)

lemma parseEpisode_fields:
  "description (parseEpisode rt x) = getCDATA (getTagContent x ''description'')"
  "pubDate (parseEpisode rt x) = getTagContent x ''pubDate''"
  "durationRaw (parseEpisode rt x) = getTagContent x ''itunes:duration''"
  "duration (parseEpisode rt x) = formatDuration (getTagContent x ''itunes:duration'')"
  "season (parseEpisode rt x) =
     (if getTagContent x ''itunes:season'' \<noteq> [] then getTagContent x ''itunes:season'' else ''1'')"
  "explicit (parseEpisode rt x) =
     (getTagContent x ''itunes:explicit'' = ''true'' \<or> getTagContent x ''itunes:explicit'' = ''yes'')"
  "summary (parseEpisode rt x) =
     getCDATA (if getTagContent x ''itunes:summary'' \<noteq> [] then getTagContent x ''itunes:summary''
               else getTagContent x ''description'')"
  "audioUrl (parseEpisode rt x) = getAttr x ''enclosure'' ''url''"
  "buzzsproutId (parseEpisode rt x) =
     (case firstMatch episodesIdHere (getAttr x ''enclosure'' ''url'') of
        Some g \<Rightarrow> g | None \<Rightarrow> [])"
  "episodeImage (parseEpisode rt x) = getAttr x ''itunes:image'' ''href''"
  "guid (parseEpisode rt x) = getTagContent x ''guid''"
  "date (parseEpisode rt x) = dateParse rt (getTagContent x ''pubDate'')"
  by (simp_all add: parseEpisode_def Let_def)

lemma getTagContentChecked_value: "getTagContentChecked xml tag = Inr (getTagContent xml tag)"
  by (cases "firstMatch (tagMatchHere tag) xml")
    (simp_all add: getTagContentChecked_def getTagContent_def matchResult_def matchAt_def
      callMethod_def)

lemma getCDATAChecked_value: "getCDATAChecked t = Inr (getCDATA t)"
  by (cases "firstMatch cdataMatchHere t")
    (simp_all add: getCDATAChecked_def getCDATA_def matchResult_def matchAt_def callMethod_def)

lemma getAttrChecked_value: "getAttrChecked xml tag attr = Some (getAttr xml tag attr)"
  by (cases "firstMatch (attrMatchHere tag attr) xml")
    (simp_all add: getAttrChecked_def getAttr_def matchResult_def matchAt_def)

lemma andThen_Inr: "andThen (Inr v) f = f v"
  by (simp add: andThen_def)

lemma parseEpisodeChecked_value: "parseEpisodeChecked rt x = Inr (parseEpisode rt x)"
proof -
  have idm: "callMethod (Some u) (\<lambda>u. matchResult (firstMatch episodesIdHere u))
      = Inr (matchResult (firstMatch episodesIdHere u))" for u
    by (simp add: callMethod_def)
  have rid: "stringField (case matchResult r of Some m \<Rightarrow> matchAt m 1 | None \<Rightarrow> Some d)
      = Inr (case r of Some g \<Rightarrow> g | None \<Rightarrow> d)" for r d
    by (cases r) (simp_all add: matchResult_def matchAt_def stringField_def)
  have sf: "stringField (Some v) = Inr v" for v
    by (simp add: stringField_def)
  show ?thesis
    unfolding parseEpisodeChecked_def parseEpisode_def Let_def
    by (simp add: getTagContentChecked_value getCDATAChecked_value getAttrChecked_value
        andThen_Inr idm rid sf)
qed

lemma parseEpisode_number_from_title:
  "(getTagContent itemXml ''itunes:episode'' = []
      \<and> getCDATA (getTagContent itemXml ''title'') = ds @ ''.'' @ rest
      \<and> ds \<noteq> [] \<and> list_all isDigit ds \<longrightarrow>
      episode (parseEpisode rt itemXml) = ds
      \<and> title (parseEpisode rt itemXml) = dropWhile isSpace rest
      \<and> fullTitle (parseEpisode rt itemXml) = ds @ ''.'' @ rest)
   \<and> (\<not> (\<exists>ds' rest'. ds' \<noteq> [] \<and> list_all isDigit ds'
             \<and> getCDATA (getTagContent itemXml ''title'') = ds' @ ''.'' @ rest') \<longrightarrow>
        title (parseEpisode rt itemXml) = getCDATA (getTagContent itemXml ''title''))"
proof -
  have fallback: "getTagContent itemXml ''itunes:episode'' = []
      \<and> getCDATA (getTagContent itemXml ''title'') = ds @ ''.'' @ rest
      \<and> ds \<noteq> [] \<and> list_all isDigit ds \<longrightarrow>
      episode (parseEpisode rt itemXml) = ds
      \<and> title (parseEpisode rt itemXml) = dropWhile isSpace rest
      \<and> fullTitle (parseEpisode rt itemXml) = ds @ ''.'' @ rest"
    using leadingNumber_prefix [of ds rest] stripLeadingNumber_prefix [of ds rest]
    by (simp add: parseEpisode_episode parseEpisode_title parseEpisode_fullTitle)
  have keep: "\<not> (\<exists>ds' rest'. ds' \<noteq> [] \<and> list_all isDigit ds'
             \<and> getCDATA (getTagContent itemXml ''title'') = ds' @ ''.'' @ rest') \<longrightarrow>
        title (parseEpisode rt itemXml) = getCDATA (getTagContent itemXml ''title'')"
  proof
    assume "\<not> (\<exists>ds' rest'. ds' \<noteq> [] \<and> list_all isDigit ds'
             \<and> getCDATA (getTagContent itemXml ''title'') = ds' @ ''.'' @ rest')"
    then have "leadingNumber (getCDATA (getTagContent itemXml ''title'')) = None"
      by (rule iffD2 [OF leadingNumber_None_iff])
    then show "title (parseEpisode rt itemXml) = getCDATA (getTagContent itemXml ''title'')"
      by (simp add: parseEpisode_title stripLeadingNumber_def)
  qed
  from fallback keep show ?thesis by (intro conjI)
qed

text \<open>
  C6. The episode number is meant to come from the tag \<open>itunes:episode\<close> when the item has one
  (the source's comment on the fallback: extract the number from the title if not in
  \<open>itunes:episode\<close>). The expression of \<open>getTagContent\<close> also takes an opening tag whose name
  only starts with \<open>itunes:episode\<close>: for an item that holds the tag \<open>itunes:episodeType\<close> before
  the number tag \<open>5\<close>, the episode number is the text from the content of the type tag to
  the end of the number, and not \<open>5\<close>. With the number tag before the type tag the number is
  \<open>5\<close>, and an item without a number tag and with the title \<open>42. Recovery Talk\<close> yields the
  number \<open>42\<close> and the display title \<open>Recovery Talk\<close>.
\<close>

theorem parseEpisode_number_from_longer_tag:
  "getTagContent
       ''<title>Recovery Talk</title><itunes:episodeType>full</itunes:episodeType><itunes:episode>5</itunes:episode>''
       ''itunes:episode''
     = ''full</itunes:episodeType><itunes:episode>5''
   \<and> episode (parseEpisode rt
        ''<title>Recovery Talk</title><itunes:episodeType>full</itunes:episodeType><itunes:episode>5</itunes:episode>'')
     = ''full</itunes:episodeType><itunes:episode>5''
   \<and> episode (parseEpisode rt
        ''<title>Recovery Talk</title><itunes:episodeType>full</itunes:episodeType><itunes:episode>5</itunes:episode>'')
     \<noteq> ''5''
   \<and> episode (parseEpisode rt
        ''<title>Recovery Talk</title><itunes:episode>5</itunes:episode><itunes:episodeType>full</itunes:episodeType>'')
     = ''5''
   \<and> episode (parseEpisode rt ''<title>42. Recovery Talk</title>'') = ''42''
   \<and> title (parseEpisode rt ''<title>42. Recovery Talk</title>'') = ''Recovery Talk''"
  unfolding parseEpisode_episode parseEpisode_title by code_simp

text \<open>
  C7, as the code has it. The evaluation of \<open>parseEpisode\<close> with the run-time checks of
  the language returns an episode record for every string and throws no error: every
  method is called on a string, and every field of the record is a string. The same holds
  for each extraction. An extraction yields the empty string when the fragment holds no
  text that opens its tag or no text that closes it (for an attribute: no text that sets
  it), in any letter case, and the fields of the record built from it are then empty (the
  season is \<open>1\<close> and the explicit flag is false); a fragment that lacks every tag in this
  sense yields the record of empty fields. The extraction reads the whole text of the
  fragment: in a fragment whose only element is a description that holds the CDATA
  section \<open><title>x</title>\<close>, the text \<open><title\<close> stands nowhere outside a CDATA section, and
  the extraction of the title yields \<open>x\<close>.
\<close>

theorem parseEpisode_never_throws_absent_tags:
  "parseEpisodeChecked rt itemXml = Inr (parseEpisode rt itemXml)
   \<and> getTagContentChecked xml tag = Inr (getTagContent xml tag)
   \<and> getCDATAChecked xml = Inr (getCDATA xml)
   \<and> getAttrChecked xml tag attr = Some (getAttr xml tag attr)
   \<and> (lacksElement tag xml \<longrightarrow> getTagContent xml tag = [])
   \<and> (lacksAttribute tag attr xml \<longrightarrow> getAttr xml tag attr = [])
   \<and> getCDATA [] = []
   \<and> (lacksElement ''title'' itemXml \<longrightarrow>
        title (parseEpisode rt itemXml) = [] \<and> fullTitle (parseEpisode rt itemXml) = [])
   \<and> (lacksElement ''description'' itemXml \<longrightarrow> description (parseEpisode rt itemXml) = [])
   \<and> (lacksElement ''pubDate'' itemXml \<longrightarrow> pubDate (parseEpisode rt itemXml) = [])
   \<and> (lacksElement ''itunes:duration'' itemXml \<longrightarrow>
        durationRaw (parseEpisode rt itemXml) = [] \<and> duration (parseEpisode rt itemXml) = [])
   \<and> (lacksElement ''itunes:episode'' itemXml \<and> lacksElement ''title'' itemXml \<longrightarrow>
        episode (parseEpisode rt itemXml) = [])
   \<and> (lacksElement ''itunes:season'' itemXml \<longrightarrow> season (parseEpisode rt itemXml) = ''1'')
   \<and> (lacksElement ''itunes:explicit'' itemXml \<longrightarrow> \<not> explicit (parseEpisode rt itemXml))
   \<and> (lacksElement ''itunes:summary'' itemXml \<and> lacksElement ''description'' itemXml \<longrightarrow>
        summary (parseEpisode rt itemXml) = [])
   \<and> (lacksAttribute ''enclosure'' ''url'' itemXml \<longrightarrow>
        audioUrl (parseEpisode rt itemXml) = [] \<and> buzzsproutId (parseEpisode rt itemXml) = [])
   \<and> (lacksAttribute ''itunes:image'' ''href'' itemXml \<longrightarrow>
        episodeImage (parseEpisode rt itemXml) = [])
   \<and> (lacksElement ''guid'' itemXml \<longrightarrow> guid (parseEpisode rt itemXml) = [])
   \<and> (list_all (\<lambda>t. lacksElement t itemXml)
          [''title'', ''description'', ''pubDate'', ''itunes:duration'', ''itunes:episode'',
           ''itunes:season'', ''itunes:explicit'', ''itunes:summary'', ''guid'']
        \<and> lacksAttribute ''enclosure'' ''url'' itemXml
        \<and> lacksAttribute ''itunes:image'' ''href'' itemXml \<longrightarrow>
        parseEpisode rt itemXml =
          \<lparr> title = [], fullTitle = [], description = [], summary = [], pubDate = [],
            date = dateParse rt [], duration = [], durationRaw = [], episode = [],
            season = ''1'', explicit = False, audioUrl = [], episodeImage = [],
            buzzsproutId = [], guid = [] \<rparr>)"
proof -
  note absent = getTagContent_lacks getAttr_lacks
  note empty = getCDATA_empty formatDuration_empty episodesId_empty
  have run: "parseEpisodeChecked rt itemXml = Inr (parseEpisode rt itemXml)"
    by (rule parseEpisodeChecked_value)
  have run1: "getTagContentChecked xml tag = Inr (getTagContent xml tag)"
    by (rule getTagContentChecked_value)
  have run2: "getCDATAChecked xml = Inr (getCDATA xml)"
    by (rule getCDATAChecked_value)
  have run3: "getAttrChecked xml tag attr = Some (getAttr xml tag attr)"
    by (rule getAttrChecked_value)
  have ext1: "lacksElement tag xml \<longrightarrow> getTagContent xml tag = []"
    by (simp add: absent)
  have ext2: "lacksAttribute tag attr xml \<longrightarrow> getAttr xml tag attr = []"
    by (simp add: absent)
  have f1: "lacksElement ''title'' itemXml \<longrightarrow>
        title (parseEpisode rt itemXml) = [] \<and> fullTitle (parseEpisode rt itemXml) = []"
    by (simp add: parseEpisode_title parseEpisode_fullTitle absent empty stripLeadingNumber_def
        leadingNumber_def)
  have f2: "lacksElement ''description'' itemXml \<longrightarrow> description (parseEpisode rt itemXml) = []"
    by (simp add: parseEpisode_fields absent empty)
  have f3: "lacksElement ''pubDate'' itemXml \<longrightarrow> pubDate (parseEpisode rt itemXml) = []"
    by (simp add: parseEpisode_fields absent)
  have f4: "lacksElement ''itunes:duration'' itemXml \<longrightarrow>
        durationRaw (parseEpisode rt itemXml) = [] \<and> duration (parseEpisode rt itemXml) = []"
    by (simp add: parseEpisode_fields absent empty)
  have f5: "lacksElement ''itunes:episode'' itemXml \<and> lacksElement ''title'' itemXml \<longrightarrow>
        episode (parseEpisode rt itemXml) = []"
    by (simp add: parseEpisode_episode absent empty leadingNumber_def)
  have f6: "lacksElement ''itunes:season'' itemXml \<longrightarrow> season (parseEpisode rt itemXml) = ''1''"
    by (simp add: parseEpisode_fields absent)
  have f7: "lacksElement ''itunes:explicit'' itemXml \<longrightarrow> \<not> explicit (parseEpisode rt itemXml)"
    by (simp add: parseEpisode_fields absent)
  have f8: "lacksElement ''itunes:summary'' itemXml \<and> lacksElement ''description'' itemXml \<longrightarrow>
        summary (parseEpisode rt itemXml) = []"
    by (simp add: parseEpisode_fields absent empty)
  have f9: "lacksAttribute ''enclosure'' ''url'' itemXml \<longrightarrow>
        audioUrl (parseEpisode rt itemXml) = [] \<and> buzzsproutId (parseEpisode rt itemXml) = []"
    by (simp add: parseEpisode_fields absent empty)
  have f10: "lacksAttribute ''itunes:image'' ''href'' itemXml \<longrightarrow>
        episodeImage (parseEpisode rt itemXml) = []"
    by (simp add: parseEpisode_fields absent)
  have f11: "lacksElement ''guid'' itemXml \<longrightarrow> guid (parseEpisode rt itemXml) = []"
    by (simp add: parseEpisode_fields absent)
  have all: "list_all (\<lambda>t. lacksElement t itemXml)
          [''title'', ''description'', ''pubDate'', ''itunes:duration'', ''itunes:episode'',
           ''itunes:season'', ''itunes:explicit'', ''itunes:summary'', ''guid'']
        \<and> lacksAttribute ''enclosure'' ''url'' itemXml
        \<and> lacksAttribute ''itunes:image'' ''href'' itemXml \<longrightarrow>
        parseEpisode rt itemXml =
          \<lparr> title = [], fullTitle = [], description = [], summary = [], pubDate = [],
            date = dateParse rt [], duration = [], durationRaw = [], episode = [],
            season = ''1'', explicit = False, audioUrl = [], episodeImage = [],
            buzzsproutId = [], guid = [] \<rparr>"
  proof
    assume a: "list_all (\<lambda>t. lacksElement t itemXml)
          [''title'', ''description'', ''pubDate'', ''itunes:duration'', ''itunes:episode'',
           ''itunes:season'', ''itunes:explicit'', ''itunes:summary'', ''guid'']
        \<and> lacksAttribute ''enclosure'' ''url'' itemXml
        \<and> lacksAttribute ''itunes:image'' ''href'' itemXml"
    then have tags: "getTagContent itemXml ''title'' = []"
      "getTagContent itemXml ''description'' = []"
      "getTagContent itemXml ''pubDate'' = []"
      "getTagContent itemXml ''itunes:duration'' = []"
      "getTagContent itemXml ''itunes:episode'' = []"
      "getTagContent itemXml ''itunes:season'' = []"
      "getTagContent itemXml ''itunes:explicit'' = []"
      "getTagContent itemXml ''itunes:summary'' = []"
      "getTagContent itemXml ''guid'' = []"
      by (simp_all add: absent)
    from a have attrs: "getAttr itemXml ''enclosure'' ''url'' = []"
      "getAttr itemXml ''itunes:image'' ''href'' = []"
      by (simp_all add: absent)
    show "parseEpisode rt itemXml =
          \<lparr> title = [], fullTitle = [], description = [], summary = [], pubDate = [],
            date = dateParse rt [], duration = [], durationRaw = [], episode = [],
            season = ''1'', explicit = False, audioUrl = [], episodeImage = [],
            buzzsproutId = [], guid = [] \<rparr>"
      unfolding parseEpisode_def tags attrs
      by (simp add: empty stripLeadingNumber_def leadingNumber_def)
  qed
  from run run1 run2 run3 ext1 ext2 getCDATA_empty f1 f2 f3 f4 f5 f6 f7 f8 f9 f10 f11 all
  show ?thesis by (intro conjI)
qed

theorem parseEpisode_never_throws_absent_tags_witness:
  "parseEpisodeChecked exampleRuntime
       ''<link>x</link><itunes:episodeType>full</itunes:episodeType>'' =
     Inr \<lparr> title = [], fullTitle = [], description = [], summary = [], pubDate = [],
           date = dateParse exampleRuntime [], duration = [], durationRaw = [], episode = [],
           season = ''1'', explicit = False, audioUrl = [], episodeImage = [],
           buzzsproutId = [], guid = [] \<rparr>
   \<and> getTagContent ''<itunes:episodeType>full</itunes:episodeType>'' ''itunes:episode'' = []
   \<and> getAttr ''<enclosure length=1/>'' ''enclosure'' ''url'' = []
   \<and> title (parseEpisode exampleRuntime ''<guid>g-1</guid>'') = []
   \<and> fullTitle (parseEpisode exampleRuntime ''<guid>g-1</guid>'') = []
   \<and> description (parseEpisode exampleRuntime ''<guid>g-1</guid>'') = []
   \<and> pubDate (parseEpisode exampleRuntime ''<guid>g-1</guid>'') = []
   \<and> durationRaw (parseEpisode exampleRuntime ''<guid>g-1</guid>'') = []
   \<and> duration (parseEpisode exampleRuntime ''<guid>g-1</guid>'') = []
   \<and> episode (parseEpisode exampleRuntime ''<guid>g-1</guid>'') = []
   \<and> season (parseEpisode exampleRuntime ''<guid>g-1</guid>'') = ''1''
   \<and> \<not> explicit (parseEpisode exampleRuntime ''<guid>g-1</guid>'')
   \<and> summary (parseEpisode exampleRuntime ''<guid>g-1</guid>'') = []
   \<and> audioUrl (parseEpisode exampleRuntime ''<guid>g-1</guid>'') = []
   \<and> buzzsproutId (parseEpisode exampleRuntime ''<guid>g-1</guid>'') = []
   \<and> episodeImage (parseEpisode exampleRuntime ''<guid>g-1</guid>'') = []
   \<and> guid (parseEpisode exampleRuntime ''<title>T</title>'') = []"
proof -
  note law1 = parseEpisode_never_throws_absent_tags
    [of exampleRuntime "''<link>x</link><itunes:episodeType>full</itunes:episodeType>''"
        "''<itunes:episodeType>full</itunes:episodeType>''" "''itunes:episode''" "''url''"]
  note law2 = parseEpisode_never_throws_absent_tags
    [of exampleRuntime "''<guid>g-1</guid>''" "''<enclosure length=1/>''" "''enclosure''" "''url''"]
  note law3 = parseEpisode_never_throws_absent_tags [of exampleRuntime "''<title>T</title>''"]
  have h1: "list_all (\<lambda>t. lacksElement t ''<link>x</link><itunes:episodeType>full</itunes:episodeType>'')
          [''title'', ''description'', ''pubDate'', ''itunes:duration'', ''itunes:episode'',
           ''itunes:season'', ''itunes:explicit'', ''itunes:summary'', ''guid'']"
    "lacksAttribute ''enclosure'' ''url'' ''<link>x</link><itunes:episodeType>full</itunes:episodeType>''"
    "lacksAttribute ''itunes:image'' ''href'' ''<link>x</link><itunes:episodeType>full</itunes:episodeType>''"
    "lacksElement ''itunes:episode'' ''<itunes:episodeType>full</itunes:episodeType>''"
    by code_simp+
  have h2: "lacksAttribute ''enclosure'' ''url'' ''<enclosure length=1/>''"
    "lacksElement ''title'' ''<guid>g-1</guid>''"
    "lacksElement ''description'' ''<guid>g-1</guid>''"
    "lacksElement ''pubDate'' ''<guid>g-1</guid>''"
    "lacksElement ''itunes:duration'' ''<guid>g-1</guid>''"
    "lacksElement ''itunes:episode'' ''<guid>g-1</guid>''"
    "lacksElement ''itunes:season'' ''<guid>g-1</guid>''"
    "lacksElement ''itunes:explicit'' ''<guid>g-1</guid>''"
    "lacksElement ''itunes:summary'' ''<guid>g-1</guid>''"
    "lacksAttribute ''enclosure'' ''url'' ''<guid>g-1</guid>''"
    "lacksAttribute ''itunes:image'' ''href'' ''<guid>g-1</guid>''"
    by code_simp+
  have h3: "lacksElement ''guid'' ''<title>T</title>''"
    by code_simp
  from law1 h1 have rec: "parseEpisode exampleRuntime
       ''<link>x</link><itunes:episodeType>full</itunes:episodeType>'' =
     \<lparr> title = [], fullTitle = [], description = [], summary = [], pubDate = [],
       date = dateParse exampleRuntime [], duration = [], durationRaw = [], episode = [],
       season = ''1'', explicit = False, audioUrl = [], episodeImage = [],
       buzzsproutId = [], guid = [] \<rparr>"
    by presburger
  from law1 have "parseEpisodeChecked exampleRuntime
       ''<link>x</link><itunes:episodeType>full</itunes:episodeType>'' =
     Inr (parseEpisode exampleRuntime
       ''<link>x</link><itunes:episodeType>full</itunes:episodeType>'')"
    by (rule conjunct1)
  then have c0: "parseEpisodeChecked exampleRuntime
       ''<link>x</link><itunes:episodeType>full</itunes:episodeType>'' =
     Inr \<lparr> title = [], fullTitle = [], description = [], summary = [], pubDate = [],
           date = dateParse exampleRuntime [], duration = [], durationRaw = [], episode = [],
           season = ''1'', explicit = False, audioUrl = [], episodeImage = [],
           buzzsproutId = [], guid = [] \<rparr>"
    by (simp only: rec)
  from law1 h1 have c1: "getTagContent ''<itunes:episodeType>full</itunes:episodeType>'' ''itunes:episode'' = []"
    by presburger
  from law2 h2 have c2: "getAttr ''<enclosure length=1/>'' ''enclosure'' ''url'' = []
   \<and> title (parseEpisode exampleRuntime ''<guid>g-1</guid>'') = []
   \<and> fullTitle (parseEpisode exampleRuntime ''<guid>g-1</guid>'') = []
   \<and> description (parseEpisode exampleRuntime ''<guid>g-1</guid>'') = []
   \<and> pubDate (parseEpisode exampleRuntime ''<guid>g-1</guid>'') = []
   \<and> durationRaw (parseEpisode exampleRuntime ''<guid>g-1</guid>'') = []
   \<and> duration (parseEpisode exampleRuntime ''<guid>g-1</guid>'') = []
   \<and> episode (parseEpisode exampleRuntime ''<guid>g-1</guid>'') = []
   \<and> season (parseEpisode exampleRuntime ''<guid>g-1</guid>'') = ''1''
   \<and> \<not> explicit (parseEpisode exampleRuntime ''<guid>g-1</guid>'')
   \<and> summary (parseEpisode exampleRuntime ''<guid>g-1</guid>'') = []
   \<and> audioUrl (parseEpisode exampleRuntime ''<guid>g-1</guid>'') = []
   \<and> buzzsproutId (parseEpisode exampleRuntime ''<guid>g-1</guid>'') = []
   \<and> episodeImage (parseEpisode exampleRuntime ''<guid>g-1</guid>'') = []"
    by presburger
  from law3 h3 have c3: "guid (parseEpisode exampleRuntime ''<title>T</title>'') = []"
    by presburger
  from c0 c1 c2 c3 show ?thesis by presburger
qed

theorem parseEpisode_tag_inside_cdata_counterexample:
  "\<not> (\<forall>itemXml tag. \<not> occursIn ciEq (CHR ''<'' # tag) (outsideCDATA itemXml) \<longrightarrow>
         getTagContent itemXml tag = [])"
proof -
  have "\<not> occursIn ciEq (CHR ''<'' # ''title'')
          (outsideCDATA ''<description><![CDATA[<title>x</title>]]></description>'')
      \<and> getTagContent ''<description><![CDATA[<title>x</title>]]></description>'' ''title'' = ''x''"
    by code_simp
  then show ?thesis by (metis list.distinct(1))
qed


section \<open>Properties of the sort\<close>















section \<open>Properties of the pages\<close>

lemma arraySlice_from_start: "arraySlice 0 n xs = take n xs"
  by (simp add: arraySlice_def)

lemma arrayAt_first: "arrayAt xs 0 = (case xs of [] \<Rightarrow> None | x # rest \<Rightarrow> Some x)"
  by (cases xs) (simp_all add: arrayAt_def)

lemma arrayAt_next: "arrayAt xs (int i + 1) = (if Suc i < length xs then Some (xs ! Suc i) else None)"
proof -
  have "nat (int i + 1) = Suc i" by simp
  then show ?thesis by (auto simp: arrayAt_def)
qed

lemma arrayAt_previous: "arrayAt xs (int i - 1) = (if 0 < i \<and> i \<le> length xs then Some (xs ! (i - 1)) else None)"
proof (cases i)
  case 0
  then show ?thesis by (simp add: arrayAt_def)
next
  case (Suc k)
  have "int (Suc k) - 1 = int k" by simp
  then show ?thesis unfolding Suc by (auto simp: arrayAt_def)
qed

lemma findIndex_distinct:
  assumes d: "distinct (map f xs)" and i: "i < length xs"
  shows "findIndex (\<lambda>e. f e = f (xs ! i)) xs = int i"
proof -
  have before: "f (xs ! j) \<noteq> f (xs ! i)" if "j < i" for j
  proof
    assume eq: "f (xs ! j) = f (xs ! i)"
    from that i have j: "j < length (map f xs)" and i': "i < length (map f xs)" and ne: "j \<noteq> i"
      by simp_all
    from d j i' ne have "map f xs ! j \<noteq> map f xs ! i"
      by (simp add: distinct_conv_nth)
    with eq that i show False by simp
  qed
  have "takeWhile (\<lambda>x. \<not> f x = f (xs ! i)) xs = take i xs"
  proof (rule takeWhile_eq_take_P_nth)
    show "\<not> f (xs ! j) = f (xs ! i)" if "j < i" "j < length xs" for j
      using before that by simp
    show "\<not> \<not> f (xs ! i) = f (xs ! i)" if "i < length xs"
      by simp
  qed
  with i show ?thesis by (simp add: findIndex_def)
qed

lemma episodeCardHTML_nonempty: "episodeCardHTML rt ep \<noteq> []"
  by (simp add: episodeCardHTML_def)

lemma generateEpisodePage_neighbours:
  assumes d: "distinct (map episode allEpisodes)" and i: "i < length allEpisodes"
  shows "generateEpisodePage rt (allEpisodes ! i) episodes allEpisodes =
           episodePageTop rt (allEpisodes ! i)
           @ episodeNavHTML (if Suc i < length allEpisodes then Some (allEpisodes ! Suc i) else None)
                            (if 0 < i then Some (allEpisodes ! (i - 1)) else None)
           @ episodePageBottom allEpisodes"
proof -
  have idx: "findIndex (\<lambda>e. episode e = episode (allEpisodes ! i)) allEpisodes = int i"
    using findIndex_distinct [OF d i] .
  have prev: "arrayAt allEpisodes (int i - 1) = (if 0 < i then Some (allEpisodes ! (i - 1)) else None)"
    using i by (simp add: arrayAt_previous)
  show ?thesis
    unfolding generateEpisodePage_def Let_def idx arrayAt_next prev episodePageHTML_def ..
qed

text \<open>
  C8. The links of the navigation are meant to lead to the pages of the neighbours. \<open>build\<close>
  writes the page of an episode under its number and, for an episode without a number,
  under the slug of its title; the navigation builds the link from the number alone. In
  the sorted collection of the episodes \<open>2\<close>, \<open>1\<close> and an episode without a number titled
  \<open>Bonus Q&A\<close>, whose numbers are pairwise different, the page of episode \<open>1\<close> has the unnumbered
  episode as its previous episode and episode \<open>2\<close> as its next one. Its link to the next
  episode names the file \<open>2.html\<close>, which is written; its link to the previous episode names
  the file \<open>.html\<close>, and the page of that episode is written as \<open>bonus-q-a.html\<close>: no page is
  written under the name of the link.
\<close>

theorem generateEpisodePage_link_misses_unnumbered_page:
  \<open>arraySort compareEpisodes exampleUnnumbered = exampleUnnumbered
   \<and> distinct (map episode exampleUnnumbered)
   \<and> generateEpisodePage exampleRuntime (exampleUnnumbered ! 1) exampleUnnumbered exampleUnnumbered =
       episodePageTop exampleRuntime (exampleUnnumbered ! 1)
       @ episodeNavHTML (Some (exampleUnnumbered ! 2)) (Some (exampleUnnumbered ! 0))
       @ episodePageBottom exampleUnnumbered
   \<and> episodeNavHTML (Some (exampleUnnumbered ! 2)) (Some (exampleUnnumbered ! 0)) =
        ''<nav class="episode-nav">\<newline>''
        @ ''          <a href=".html" class="episode-nav-link episode-nav-prev">&larr; Episode </a>\<newline>''
        @ ''          <a href="../episodes.html" class="episode-nav-link episode-nav-all">All Episodes</a>\<newline>''
        @ ''          <a href="2.html" class="episode-nav-link episode-nav-next">Episode 2 &rarr;</a>\<newline>''
        @ ''        </nav>''
   \<and> map fst (buildEpisodePages exampleRuntime exampleUnnumbered) =
        [''2.html'', ''1.html'', ''bonus-q-a.html'']
   \<and> ''.html'' \<notin> set (map fst (buildEpisodePages exampleRuntime exampleUnnumbered))\<close>
proof -
  have sorted: "arraySort compareEpisodes exampleUnnumbered = exampleUnnumbered"
    by code_simp
  have d: "distinct (map episode exampleUnnumbered)"
    by code_simp
  have len: "length exampleUnnumbered = 3"
    by (simp add: exampleUnnumbered_def)
  then have i: "1 < length exampleUnnumbered"
    by simp
  have page: "generateEpisodePage exampleRuntime (exampleUnnumbered ! 1) exampleUnnumbered exampleUnnumbered =
       episodePageTop exampleRuntime (exampleUnnumbered ! 1)
       @ episodeNavHTML (Some (exampleUnnumbered ! 2)) (Some (exampleUnnumbered ! 0))
       @ episodePageBottom exampleUnnumbered"
    using generateEpisodePage_neighbours [OF d i, of exampleRuntime exampleUnnumbered]
    by (simp add: len eval_nat_numeral)
  have nav: \<open>episodeNavHTML (Some (exampleUnnumbered ! 2)) (Some (exampleUnnumbered ! 0)) =
        ''<nav class="episode-nav">\<newline>''
        @ ''          <a href=".html" class="episode-nav-link episode-nav-prev">&larr; Episode </a>\<newline>''
        @ ''          <a href="../episodes.html" class="episode-nav-link episode-nav-all">All Episodes</a>\<newline>''
        @ ''          <a href="2.html" class="episode-nav-link episode-nav-next">Episode 2 &rarr;</a>\<newline>''
        @ ''        </nav>''\<close>
    by code_simp
  have names: "map fst (buildEpisodePages exampleRuntime exampleUnnumbered) = map episodeFileName exampleUnnumbered"
    by (simp add: buildEpisodePages_def comp_def)
  have files: "map episodeFileName exampleUnnumbered = [''2.html'', ''1.html'', ''bonus-q-a.html'']"
    by code_simp
  have written: "map fst (buildEpisodePages exampleRuntime exampleUnnumbered) =
        [''2.html'', ''1.html'', ''bonus-q-a.html'']"
    by (simp only: names files)
  have missing: "''.html'' \<notin> set (map fst (buildEpisodePages exampleRuntime exampleUnnumbered))"
    unfolding written by simp
  from sorted d page nav written missing show ?thesis by (intro conjI)
qed

text \<open>
  C5, as the code has it. For a collection that is not empty the home page is the template
  with the first episode of the sorted collection as the hero and the first six episodes
  of the collection, the hero's episode among them, as the cards of the recent episodes,
  in their order; a shorter collection gives as many cards as it has episodes. For a
  collection of one episode the hero is that episode and the grid holds exactly its card.
  For the empty collection the function throws.
\<close>

theorem generateHomePage_hero_and_recent:
  "(episodes \<noteq> [] \<longrightarrow>
      generateHomePage rt episodes podcastMeta =
        Inr (homePageHead podcastMeta @ heroSectionHTML (episodes ! 0) @ recentSectionOpen
             @ concat (map (episodeCardHTML rt) (take 6 episodes))
             @ homePageBottom episodes))
   \<and> (episodes \<noteq> [] \<longrightarrow> take 6 episodes = episodes ! 0 # take 5 (tl episodes))
   \<and> length (take 6 episodes) = min 6 (length episodes)
   \<and> (length episodes = 1 \<longrightarrow>
        generateHomePage rt episodes podcastMeta =
          Inr (homePageHead podcastMeta @ heroSectionHTML (episodes ! 0) @ recentSectionOpen
               @ episodeCardHTML rt (episodes ! 0)
               @ homePageBottom episodes))
   \<and> generateHomePage rt [] podcastMeta = Inl TypeError"
proof -
  have page: "generateHomePage rt (e # es) podcastMeta =
        Inr (homePageHead podcastMeta @ heroSectionHTML e @ recentSectionOpen
             @ concat (map (episodeCardHTML rt) (take 6 (e # es)))
             @ homePageBottom (e # es))" for e es
    by (simp only: generateHomePage_def arrayAt_first list.case option.case Let_def
        arraySlice_from_start homePageHTML_def)
  have general: "episodes \<noteq> [] \<longrightarrow>
      generateHomePage rt episodes podcastMeta =
        Inr (homePageHead podcastMeta @ heroSectionHTML (episodes ! 0) @ recentSectionOpen
             @ concat (map (episodeCardHTML rt) (take 6 episodes))
             @ homePageBottom episodes)"
  proof
    assume "episodes \<noteq> []"
    then obtain e es where e: "episodes = e # es" by (cases episodes) auto
    show "generateHomePage rt episodes podcastMeta =
        Inr (homePageHead podcastMeta @ heroSectionHTML (episodes ! 0) @ recentSectionOpen
             @ concat (map (episodeCardHTML rt) (take 6 episodes))
             @ homePageBottom episodes)"
      unfolding e page by simp
  qed
  have first: "episodes \<noteq> [] \<longrightarrow> take 6 episodes = episodes ! 0 # take 5 (tl episodes)"
    by (cases episodes) simp_all
  have count: "length (take 6 episodes) = min 6 (length episodes)"
    by simp
  have single: "length episodes = 1 \<longrightarrow>
        generateHomePage rt episodes podcastMeta =
          Inr (homePageHead podcastMeta @ heroSectionHTML (episodes ! 0) @ recentSectionOpen
               @ episodeCardHTML rt (episodes ! 0)
               @ homePageBottom episodes)"
  proof
    assume "length episodes = 1"
    then obtain e where e: "episodes = [e]" by (cases episodes) auto
    show "generateHomePage rt episodes podcastMeta =
          Inr (homePageHead podcastMeta @ heroSectionHTML (episodes ! 0) @ recentSectionOpen
               @ episodeCardHTML rt (episodes ! 0)
               @ homePageBottom episodes)"
      unfolding e page by simp
  qed
  have empty: "generateHomePage rt [] podcastMeta = Inl TypeError"
    by (simp add: generateHomePage_def arrayAt_first)
  from general first count single empty show ?thesis by (intro conjI)
qed

theorem generateHomePage_hero_and_recent_witness:
  "generateHomePage exampleRuntime exampleDistinct exampleMeta =
     Inr (homePageHead exampleMeta @ heroSectionHTML (exampleDistinct ! 0) @ recentSectionOpen
          @ concat (map (episodeCardHTML exampleRuntime) (take 6 exampleDistinct))
          @ homePageBottom exampleDistinct)
   \<and> take 6 exampleDistinct = exampleDistinct ! 0 # take 5 (tl exampleDistinct)
   \<and> generateHomePage exampleRuntime [exampleEpisode ''1'' ''a'' None] exampleMeta =
       Inr (homePageHead exampleMeta @ heroSectionHTML ([exampleEpisode ''1'' ''a'' None] ! 0)
            @ recentSectionOpen
            @ episodeCardHTML exampleRuntime ([exampleEpisode ''1'' ''a'' None] ! 0)
            @ homePageBottom [exampleEpisode ''1'' ''a'' None])"
proof -
  note law = generateHomePage_hero_and_recent
  have h1: "exampleDistinct \<noteq> []"
    by (simp add: exampleDistinct_def)
  have h2: "length [exampleEpisode ''1'' ''a'' None] = 1"
    by simp
  have c1: "generateHomePage exampleRuntime exampleDistinct exampleMeta =
     Inr (homePageHead exampleMeta @ heroSectionHTML (exampleDistinct ! 0) @ recentSectionOpen
          @ concat (map (episodeCardHTML exampleRuntime) (take 6 exampleDistinct))
          @ homePageBottom exampleDistinct)"
    by (rule mp [OF conjunct1 [OF law] h1])
  have c2: "take 6 exampleDistinct = exampleDistinct ! 0 # take 5 (tl exampleDistinct)"
    by (rule mp [OF conjunct1 [OF conjunct2 [OF law]] h1])
  have c3: "generateHomePage exampleRuntime [exampleEpisode ''1'' ''a'' None] exampleMeta =
       Inr (homePageHead exampleMeta @ heroSectionHTML ([exampleEpisode ''1'' ''a'' None] ! 0)
            @ recentSectionOpen
            @ episodeCardHTML exampleRuntime ([exampleEpisode ''1'' ''a'' None] ! 0)
            @ homePageBottom [exampleEpisode ''1'' ''a'' None])"
    by (rule mp [OF conjunct1 [OF conjunct2 [OF conjunct2 [OF conjunct2 [OF law]]]] h2])
  from c1 c2 c3 show ?thesis by (intro conjI)
qed

theorem generateHomePage_next_six_counterexample:
  "\<not> (\<forall>rt episodes podcastMeta. episodes \<noteq> [] \<longrightarrow>
         generateHomePage rt episodes podcastMeta =
           Inr (homePageHead podcastMeta @ heroSectionHTML (episodes ! 0) @ recentSectionOpen
                @ concat (map (episodeCardHTML rt) (take 6 (tl episodes)))
                @ homePageBottom episodes))"
proof
  assume claim: "\<forall>rt episodes podcastMeta. episodes \<noteq> [] \<longrightarrow>
         generateHomePage rt episodes podcastMeta =
           Inr (homePageHead podcastMeta @ heroSectionHTML (episodes ! 0) @ recentSectionOpen
                @ concat (map (episodeCardHTML rt) (take 6 (tl episodes)))
                @ homePageBottom episodes)"
  let ?a = "exampleEpisode ''2'' ''b'' None" and ?b = "exampleEpisode ''1'' ''a'' None"
  have code: "generateHomePage exampleRuntime [?a, ?b] exampleMeta =
           Inr (homePageHead exampleMeta @ heroSectionHTML ([?a, ?b] ! 0) @ recentSectionOpen
                @ concat (map (episodeCardHTML exampleRuntime) (take 6 [?a, ?b]))
                @ homePageBottom [?a, ?b])"
    by (simp only: generateHomePage_def arrayAt_first list.case option.case Let_def
        arraySlice_from_start homePageHTML_def nth_Cons_0)
  from claim have "generateHomePage exampleRuntime [?a, ?b] exampleMeta =
           Inr (homePageHead exampleMeta @ heroSectionHTML ([?a, ?b] ! 0) @ recentSectionOpen
                @ concat (map (episodeCardHTML exampleRuntime) (take 6 (tl [?a, ?b])))
                @ homePageBottom [?a, ?b])"
    by blast
  with code have "concat (map (episodeCardHTML exampleRuntime) (take 6 [?a, ?b]))
      = concat (map (episodeCardHTML exampleRuntime) (take 6 (tl [?a, ?b])))"
    by simp
  then have "episodeCardHTML exampleRuntime ?a = []"
    by simp
  with episodeCardHTML_nonempty show False by blast
qed

text \<open>
  C1. The titles and descriptions interpolated into the hero, the episode cards and the
  title of the detail page pass through \<open>escapeHtml\<close>; the items of the sidebar's list of
  recent episodes interpolate the title as it is. For an episode whose title holds markup
  the sidebar, which is part of the home page and of every detail page, holds that markup
  unescaped.
\<close>

theorem sidebarHTML_title_not_escaped:
  \<open>title (parseEpisode exampleRuntime ''<title><![CDATA[1. <b>x</b>]]></title>'') = ''<b>x</b>''
   \<and> sidebarItemHTML (parseEpisode exampleRuntime ''<title><![CDATA[1. <b>x</b>]]></title>'') =
       ''\<newline>          <li><a href="episodes/1.html">1. <b>x</b></a></li>\<newline>          ''
   \<and> sidebarHTML [parseEpisode exampleRuntime ''<title><![CDATA[1. <b>x</b>]]></title>''] =
       sidebarTop
       @ ''\<newline>          <li><a href="episodes/1.html">1. <b>x</b></a></li>\<newline>          ''
       @ sidebarBottom
   \<and> escapeHtml (title (parseEpisode exampleRuntime ''<title><![CDATA[1. <b>x</b>]]></title>''))
       = ''&lt;b&gt;x&lt;/b&gt;''\<close>
proof -
  have t: \<open>title (parseEpisode exampleRuntime ''<title><![CDATA[1. <b>x</b>]]></title>'') = ''<b>x</b>''\<close>
    unfolding parseEpisode_title by code_simp
  have n: \<open>episode (parseEpisode exampleRuntime ''<title><![CDATA[1. <b>x</b>]]></title>'') = ''1''\<close>
    unfolding parseEpisode_episode by code_simp
  have item: \<open>sidebarItemHTML (parseEpisode exampleRuntime ''<title><![CDATA[1. <b>x</b>]]></title>'') =
       ''\<newline>          <li><a href="episodes/1.html">1. <b>x</b></a></li>\<newline>          ''\<close>
    by (simp add: sidebarItemHTML_def t n)
  have side: \<open>sidebarHTML [parseEpisode exampleRuntime ''<title><![CDATA[1. <b>x</b>]]></title>''] =
       sidebarTop
       @ ''\<newline>          <li><a href="episodes/1.html">1. <b>x</b></a></li>\<newline>          ''
       @ sidebarBottom\<close>
    by (simp add: sidebarHTML_def arraySlice_from_start item)
  have esc: \<open>escapeHtml (title (parseEpisode exampleRuntime ''<title><![CDATA[1. <b>x</b>]]></title>''))
       = ''&lt;b&gt;x&lt;/b&gt;''\<close>
    unfolding t by code_simp
  from t item side esc show ?thesis by (intro conjI)
qed


end
